theory Spec2Isabelle
  imports Main "HOL-Library.Multiset" "HOL-Library.AList" "HOL-Library.List_Lexorder"
    "HOL-Library.Char_ord"
begin

section \<open>Artifact storage and serving core of the source controller\<close>

text \<open>
  A shallow embedding of \<^verbatim>\<open>pkg/storage\<close>: the object-store backend
  (\<^verbatim>\<open>s3.go\<close>), the filesystem backend (\<^verbatim>\<open>filesystem.go\<close>) and the artifact
  server (\<^verbatim>\<open>server.go\<close>). Go methods that mutate their receiver or an argument
  through a pointer return the updated value next to their result; a Go result
  \<^verbatim>\<open>(v, err)\<close> is a pair whose second component is \<open>None\<close> for \<^verbatim>\<open>nil\<close>.
\<close>

subsection \<open>Basic types\<close>

text \<open>
  Byte strings and Go strings are lists of 8-bit characters. An instant
  (\<^verbatim>\<open>time.Time\<close>, \<^verbatim>\<open>metav1.Time\<close>) is its number of nanoseconds since the
  Unix epoch; a \<^verbatim>\<open>time.Duration\<close> is an \<^verbatim>\<open>int64\<close> count of nanoseconds.
\<close>

type_synonym bytes = "char list"
type_synonym time = int
type_synonym duration = int

definition Second :: duration where
  "Second = 1000000000"

definition Minute :: duration where
  "Minute = 60 * Second"

definition minDuration :: duration where
  "minDuration = - (2 ^ 63)"

definition maxDuration :: duration where
  "maxDuration = 2 ^ 63 - 1"

text \<open>\<^verbatim>\<open>t.Sub(u)\<close>: the difference, saturated at the ends of the \<^verbatim>\<open>int64\<close> range.\<close>

definition Sub :: "time \<Rightarrow> time \<Rightarrow> duration" where
  "Sub t u =
     (let d = t - u in
      if d < minDuration then minDuration
      else if maxDuration < d then maxDuration
      else d)"

text \<open>
  The zero value of \<^verbatim>\<open>time.Time\<close> and \<^verbatim>\<open>metav1.Time\<close>: January 1 of year 1,
  00:00:00 UTC, which is 62135596800 seconds before the Unix epoch.
\<close>

definition zero_Time :: time where
  "zero_Time = - 62135596800 * Second"

text \<open>\<^verbatim>\<open>t.After(u)\<close>.\<close>

definition After :: "time \<Rightarrow> time \<Rightarrow> bool" where
  "After t u \<longleftrightarrow> u < t"

text \<open>The functions of package \<^verbatim>\<open>strings\<close> the code calls.\<close>

definition HasPrefix :: "string \<Rightarrow> string \<Rightarrow> bool" where
  "HasPrefix s p \<longleftrightarrow> take (length p) s = p"

definition HasSuffix :: "string \<Rightarrow> string \<Rightarrow> bool" where
  "HasSuffix s suffix \<longleftrightarrow>
     length suffix \<le> length s \<and> drop (length s - length suffix) s = suffix"

definition TrimPrefix :: "string \<Rightarrow> string \<Rightarrow> string" where
  "TrimPrefix s p = (if HasPrefix s p then drop (length p) s else s)"

definition TrimSuffix :: "string \<Rightarrow> string \<Rightarrow> string" where
  "TrimSuffix s suffix =
     (if HasSuffix s suffix then take (length s - length suffix) s else s)"

text \<open>
  Go errors. \<open>ErrorResponse code\<close> is a \<^verbatim>\<open>minio.ErrorResponse\<close> with that
  \<^verbatim>\<open>Code\<close>; \<open>ErrNotExist\<close> is an error of the operating system for which
  \<^verbatim>\<open>os.IsNotExist\<close> holds; \<open>Failure msg\<close> is any other error;
  \<open>Wrapped msg e\<close> is \<^verbatim>\<open>fmt.Errorf(msg + ": %w", e)\<close>.
\<close>

datatype go_error =
    ErrorResponse string
  | ErrNotExist
  | Failure string
  | Wrapped string go_error

text \<open>
  \<^verbatim>\<open>minio.ToErrorResponse(err).Code\<close>: the code of an error response, and the
  code of the empty response for an error of any other type.
\<close>

fun ToErrorResponse_Code :: "go_error \<Rightarrow> string" where
  "ToErrorResponse_Code (ErrorResponse code) = code"
| "ToErrorResponse_Code _ = []"

fun IsNotExist :: "go_error \<Rightarrow> bool" where
  "IsNotExist ErrNotExist = True"
| "IsNotExist _ = False"

subsection \<open>The artifact descriptor and the policy types\<close>

text \<open>\<^verbatim>\<open>v1.Artifact\<close>; \<open>Size\<close> is a pointer in Go, \<open>None\<close> is \<^verbatim>\<open>nil\<close>.\<close>

record Artifact =
  Path :: string
  URL :: string
  Revision :: string
  Digest :: string
  LastUpdateTime :: time
  Size :: "int option"

text \<open>
  The composite literal \<^verbatim>\<open>&v1.Artifact{Path: path}\<close>: every other field zero,
  \<open>LastUpdateTime\<close> the zero time.
\<close>

definition Artifact_of_Path :: "string \<Rightarrow> Artifact" where
  "Artifact_of_Path path =
     \<lparr>Path = path, URL = [], Revision = [], Digest = [], LastUpdateTime = zero_Time,
      Size = None\<rparr>"

record ArtifactFilter =
  Kind :: string
  Namespace :: string
  Name :: string

record RetentionPolicy =
  TTL :: duration
  MaxRecords :: int

subsection \<open>Sorting a listing\<close>

text \<open>
  \<^verbatim>\<open>sortArtifactsByTime\<close>: two nested index loops over the slice. The inner loop
  runs \<open>j\<close> from \<open>i + 1\<close> and exchanges the entries at \<open>i\<close> and \<open>j\<close> when the one
  at \<open>j\<close> is strictly later. Both loops keep \<open>i < j\<close> and \<open>j\<close> below the length,
  so every index is in range.
\<close>

function sort_inner :: "nat \<Rightarrow> nat \<Rightarrow> Artifact list \<Rightarrow> Artifact list" where
  "sort_inner i j artifacts =
     (if j < length artifacts then
        sort_inner i (j + 1)
          (if After (LastUpdateTime (artifacts ! j)) (LastUpdateTime (artifacts ! i))
           then artifacts[i := artifacts ! j, j := artifacts ! i]
           else artifacts)
      else artifacts)"
  by pat_completeness auto
termination
  by (relation "measure (\<lambda>(i, j, artifacts). length artifacts - j)") auto

declare sort_inner.simps [simp del]

lemma length_sort_inner: "length (sort_inner i j artifacts) = length artifacts"
proof (induction i j artifacts rule: sort_inner.induct)
  case (1 i j artifacts)
  show ?case
  proof (cases "j < length artifacts")
    case True
    then show ?thesis
      using "1.IH" by (subst sort_inner.simps) simp
  next
    case False
    then show ?thesis
      by (subst sort_inner.simps) simp
  qed
qed

function sort_outer :: "nat \<Rightarrow> Artifact list \<Rightarrow> Artifact list" where
  "sort_outer i artifacts =
     (if i < length artifacts then sort_outer (i + 1) (sort_inner i (i + 1) artifacts)
      else artifacts)"
  by pat_completeness auto
termination
  by (relation "measure (\<lambda>(i, artifacts). length artifacts - i)")
     (auto simp: length_sort_inner)

declare sort_outer.simps [simp del]

definition sortArtifactsByTime :: "Artifact list \<Rightarrow> Artifact list" where
  "sortArtifactsByTime artifacts = sort_outer 0 artifacts"


subsection \<open>The object store behind the MinIO client\<close>

text \<open>
  The S3 service as \<^verbatim>\<open>*minio.Client\<close> shows it to the backend. \<open>objects\<close> holds
  the stored objects under their bucket and key. \<open>faults\<close> is what the environment
  has in store for the coming requests, one entry per request in order: \<open>None\<close>
  lets the request reach the service, which answers from \<open>objects\<close>; \<open>Some e\<close>
  makes the request fail with \<open>e\<close> (network, credentials, a cancelled context).
  Once the list is used up every request reaches the service. \<open>server_time\<close> is
  the clock the service stamps an upload with, and \<open>presigner\<close> is the local
  computation of a presigned GET URL from bucket, key and expiry.
\<close>

record stored_object =
  data :: bytes
  ContentType :: string
  UserMetadata :: "(string \<times> string) list"
  modified :: time

record minio_Client =
  objects :: "((string \<times> string) \<times> stored_object) list"
  faults :: "go_error option list"
  server_time :: time
  presigner :: "string \<Rightarrow> string \<Rightarrow> duration \<Rightarrow> go_error + string"

text \<open>
  \<^verbatim>\<open>minio.ObjectInfo\<close>, the fields the backend reads (\<open>ObjectSize\<close> is its
  \<^verbatim>\<open>Size\<close>).
\<close>

record ObjectInfo =
  Key :: string
  LastModified :: time
  ObjectSize :: int
  Err :: "go_error option"

definition next_fault :: "minio_Client \<Rightarrow> go_error option \<times> minio_Client" where
  "next_fault c =
     (case faults c of
        [] \<Rightarrow> (None, c)
      | f # fs \<Rightarrow> (f, c\<lparr>faults := fs\<rparr>))"

text \<open>\<^verbatim>\<open>PutObject\<close>: a single request that replaces the object under the key.\<close>

definition PutObject ::
  "minio_Client \<Rightarrow> string \<Rightarrow> string \<Rightarrow> bytes \<Rightarrow> string \<Rightarrow> (string \<times> string) list
     \<Rightarrow> go_error option \<times> minio_Client" where
  "PutObject c bucketName objectName content contentType userMetadata =
     (case next_fault c of
        (Some e, c') \<Rightarrow> (Some e, c')
      | (None, c') \<Rightarrow>
          (None,
           c'\<lparr>objects :=
                AList.update (bucketName, objectName)
                  \<lparr>data = content, ContentType = contentType,
                   UserMetadata = userMetadata, modified = server_time c'\<rparr>
                  (objects c')\<rparr>))"

text \<open>
  \<^verbatim>\<open>StatObject\<close>, of which the backend reads the error only: a missing key is
  answered with the error response \<^verbatim>\<open>NoSuchKey\<close>.
\<close>

definition StatObject ::
  "minio_Client \<Rightarrow> string \<Rightarrow> string \<Rightarrow> go_error option \<times> minio_Client" where
  "StatObject c bucketName objectName =
     (case next_fault c of
        (Some e, c') \<Rightarrow> (Some e, c')
      | (None, c') \<Rightarrow>
          (case map_of (objects c') (bucketName, objectName) of
             None \<Rightarrow> (Some (ErrorResponse ''NoSuchKey''), c')
           | Some obj \<Rightarrow> (None, c')))"

text \<open>
  \<^verbatim>\<open>RemoveObject\<close>: the service answers the removal of a key with success whether
  or not the key held an object.
\<close>

definition RemoveObject ::
  "minio_Client \<Rightarrow> string \<Rightarrow> string \<Rightarrow> go_error option \<times> minio_Client" where
  "RemoveObject c bucketName objectName =
     (case next_fault c of
        (Some e, c') \<Rightarrow> (Some e, c')
      | (None, c') \<Rightarrow>
          (None, c'\<lparr>objects := AList.delete (bucketName, objectName) (objects c')\<rparr>))"

text \<open>
  \<^verbatim>\<open>ListObjects\<close> with \<^verbatim>\<open>Recursive: true\<close>: the channel's items, as a list. A
  failed listing delivers an item that carries the error.
\<close>

definition ListObjects ::
  "minio_Client \<Rightarrow> string \<Rightarrow> string \<Rightarrow> ObjectInfo list \<times> minio_Client" where
  "ListObjects c bucketName pfx =
     (case next_fault c of
        (Some e, c') \<Rightarrow>
          ([\<lparr>Key = [], LastModified = zero_Time, ObjectSize = 0, Err = Some e\<rparr>], c')
      | (None, c') \<Rightarrow>
          (map (\<lambda>((b, k), obj).
                  \<lparr>Key = k, LastModified = modified obj,
                   ObjectSize = int (length (data obj)), Err = None\<rparr>)
             (filter (\<lambda>((b, k), obj). b = bucketName \<and> HasPrefix k pfx) (objects c')),
           c'))"

text \<open>\<^verbatim>\<open>PresignedGetObject\<close>, with the URL already rendered by \<^verbatim>\<open>String()\<close>.\<close>

definition PresignedGetObject ::
  "minio_Client \<Rightarrow> string \<Rightarrow> string \<Rightarrow> duration \<Rightarrow> go_error + string" where
  "PresignedGetObject c bucketName objectName expires =
     presigner c bucketName objectName expires"

text \<open>
  An \<^verbatim>\<open>io.Reader\<close>: the bytes it delivers, then end of file (\<open>None\<close>) or a read
  error.
\<close>

datatype reader = Reader bytes "go_error option"

text \<open>
  \<^verbatim>\<open>GetObject\<close> hands out the object as a stream; a request that fails or a
  missing key shows when the stream is read.
\<close>

definition GetObject ::
  "minio_Client \<Rightarrow> string \<Rightarrow> string \<Rightarrow> (reader \<times> go_error option) \<times> minio_Client" where
  "GetObject c bucketName objectName =
     (case next_fault c of
        (Some e, c') \<Rightarrow> ((Reader [] (Some e), None), c')
      | (None, c') \<Rightarrow>
          (case map_of (objects c') (bucketName, objectName) of
             None \<Rightarrow> ((Reader [] (Some (ErrorResponse ''NoSuchKey'')), None), c')
           | Some obj \<Rightarrow> ((Reader (data obj) None, None), c')))"

subsection \<open>The digest pipeline\<close>

text \<open>
  Modelled from the spec: the digester of \<^verbatim>\<open>internal/digest\<close>, which is not among
  the sources. The algorithm is a process-wide choice (\<^verbatim>\<open>intdigest.Canonical\<close>);
  the digester is a write sink and yields the string \<^verbatim>\<open><algo>:<hex>\<close> of the bytes
  written to it. The hash function itself is a parameter.
\<close>

record Algorithm =
  algo_name :: string
  algo_hash :: "bytes \<Rightarrow> bytes"

text \<open>Lower-case hexadecimal, two digits per byte.\<close>

definition hex_digit :: "nat \<Rightarrow> char" where
  "hex_digit n = ''0123456789abcdef'' ! (n mod 16)"

definition hex_encode :: "bytes \<Rightarrow> string" where
  "hex_encode bs = concat (map (\<lambda>b. [hex_digit (of_char b div 16), hex_digit (of_char b)]) bs)"

text \<open>
  Modelled from the spec: \<^verbatim>\<open>d.Digest().String()\<close> of a digester that has received
  \<open>content\<close>, the string \<^verbatim>\<open><algo>:<hex>\<close>.
\<close>

definition Digest_String :: "Algorithm \<Rightarrow> bytes \<Rightarrow> string" where
  "Digest_String alg content = algo_name alg @ '':'' @ hex_encode (algo_hash alg content)"

subsection \<open>The object-store backend\<close>

text \<open>
  \<^verbatim>\<open>S3Storage\<close> without its client, which is the state the methods below take and
  return, and without its table of locks.
\<close>

record S3Storage =
  bucket :: string
  prefix :: string
  hostname :: string
  urlExpiration :: duration

record S3Config =
  Bucket :: string
  Prefix :: string
  Region :: string
  Endpoint :: string
  Hostname :: string
  URLExpiration :: duration
  ForcePathStyle :: bool

text \<open>
  \<^verbatim>\<open>NewS3Storage\<close>. Its three library calls are parameters: \<open>url_Parse\<close> gives
  scheme and host of an endpoint it can parse, \<open>minio_New\<close> builds the client from
  endpoint, security flag and region, and \<open>BucketExists\<close> asks the service for the
  bucket.
\<close>

definition NewS3Storage ::
  "(string \<Rightarrow> (string \<times> string) option) \<Rightarrow>
   (string \<Rightarrow> bool \<Rightarrow> string \<Rightarrow> go_error + minio_Client) \<Rightarrow>
   (minio_Client \<Rightarrow> string \<Rightarrow> bool \<times> go_error option) \<Rightarrow>
   S3Config \<Rightarrow> go_error + (S3Storage \<times> minio_Client)" where
  "NewS3Storage url_Parse minio_New BucketExists cfg =
     (let (endpoint, secure) =
            (if Endpoint cfg = [] then (''s3.amazonaws.com'', True)
             else (case url_Parse (Endpoint cfg) of
                     Some (scheme, host) \<Rightarrow> (host, scheme = ''https'')
                   | None \<Rightarrow> (Endpoint cfg, True)))
      in case minio_New endpoint secure (Region cfg) of
           Inl err \<Rightarrow> Inl (Wrapped ''failed to create MinIO client'' err)
         | Inr minioClient \<Rightarrow>
             (case BucketExists minioClient (Bucket cfg) of
                (exists, Some err) \<Rightarrow> Inl (Wrapped ''failed to check bucket existence'' err)
              | (exists, None) \<Rightarrow>
                  if \<not> exists then Inl (Failure (''bucket '' @ Bucket cfg @ '' does not exist''))
                  else
                    let cfg = (if URLExpiration cfg = 0
                               then cfg\<lparr>URLExpiration := 15 * Minute\<rparr> else cfg)
                    in Inr (\<lparr>bucket = Bucket cfg,
                             prefix = TrimSuffix (Prefix cfg) ''/'',
                             hostname = Hostname cfg,
                             urlExpiration = URLExpiration cfg\<rparr>,
                            minioClient)))"

definition artifactKey :: "S3Storage \<Rightarrow> Artifact \<Rightarrow> string" where
  "artifactKey s artifact =
     (if prefix s \<noteq> [] then prefix s @ ''/'' @ Path artifact else Path artifact)"

text \<open>
  \<^verbatim>\<open>S3Storage.Store\<close>. The first step is \<^verbatim>\<open>io.Copy\<close> into the digester, the
  buffer and the byte counter: none of the three sinks fails, so the copy ends
  with the reader's error or with none, and each sink has received the bytes the
  reader delivered. \<open>Canonical\<close> is the process-wide digest algorithm and
  \<open>now\<close> the reading of \<^verbatim>\<open>metav1.Now()\<close>. The descriptor is passed by pointer, so
  the result carries it next to the error. The byte counter is an \<^verbatim>\<open>int64\<close> that
  counts a buffer held in memory and cannot wrap.
\<close>

definition S3Storage_Store ::
  "Algorithm \<Rightarrow> time \<Rightarrow> S3Storage \<Rightarrow> minio_Client \<Rightarrow> Artifact \<Rightarrow> reader
     \<Rightarrow> (go_error option \<times> Artifact) \<times> minio_Client" where
  "S3Storage_Store Canonical now s c artifact rd =
     (case rd of
        Reader buf (Some err) \<Rightarrow> ((Some (Wrapped ''failed to read content'' err), artifact), c)
      | Reader buf None \<Rightarrow>
          (let key = artifactKey s artifact;
               (err, c') =
                  PutObject c (bucket s) key buf ''application/gzip''
                    [(''digest'', Digest_String Canonical buf),
                     (''revision'', Revision artifact)]
           in case err of
                Some e \<Rightarrow> ((Some (Wrapped ''failed to upload to S3'' e), artifact), c')
              | None \<Rightarrow>
                  ((None,
                    artifact\<lparr>Digest := Digest_String Canonical buf,
                             LastUpdateTime := now,
                             Size := Some (int (length buf))\<rparr>),
                   c')))"

definition S3Storage_Retrieve ::
  "S3Storage \<Rightarrow> minio_Client \<Rightarrow> Artifact \<Rightarrow> (reader \<times> go_error option) \<times> minio_Client" where
  "S3Storage_Retrieve s c artifact =
     (let key = artifactKey s artifact;
          ((obj, err), c') = GetObject c (bucket s) key
      in case err of
           Some e \<Rightarrow> ((Reader [] None, Some (Wrapped ''failed to get object from S3'' e)), c')
         | None \<Rightarrow> ((obj, None), c'))"

definition S3Storage_Exists ::
  "S3Storage \<Rightarrow> minio_Client \<Rightarrow> Artifact \<Rightarrow> (bool \<times> go_error option) \<times> minio_Client" where
  "S3Storage_Exists s c artifact =
     (let key = artifactKey s artifact;
          (err, c') = StatObject c (bucket s) key
      in case err of
           Some e \<Rightarrow>
             if ToErrorResponse_Code e = ''NoSuchKey'' then ((False, None), c')
             else ((False, Some (Wrapped ''failed to check object existence'' e)), c')
         | None \<Rightarrow> ((True, None), c'))"

definition S3Storage_Delete ::
  "S3Storage \<Rightarrow> minio_Client \<Rightarrow> Artifact \<Rightarrow> go_error option \<times> minio_Client" where
  "S3Storage_Delete s c artifact =
     (let key = artifactKey s artifact;
          (err, c') = RemoveObject c (bucket s) key
      in case err of
           Some e \<Rightarrow> (Some (Wrapped ''failed to delete object from S3'' e), c')
         | None \<Rightarrow> (None, c'))"

definition S3Storage_GetURL ::
  "S3Storage \<Rightarrow> minio_Client \<Rightarrow> Artifact \<Rightarrow> (string \<times> go_error option) \<times> minio_Client" where
  "S3Storage_GetURL s c artifact =
     (let key = artifactKey s artifact
      in case PresignedGetObject c (bucket s) key (urlExpiration s) of
           Inl e \<Rightarrow> (([], Some (Wrapped ''failed to create pre-signed URL'' e)), c)
         | Inr url \<Rightarrow> ((url, None), c))"

text \<open>\<^verbatim>\<open>S3Storage.List\<close>: the key prefix of the filter, then the loop over the channel.\<close>

definition List_prefix :: "S3Storage \<Rightarrow> ArtifactFilter \<Rightarrow> string" where
  "List_prefix s flt =
     (let pfx = prefix s;
          pfx = (if pfx \<noteq> [] then pfx @ ''/'' else pfx)
      in if Kind flt \<noteq> [] then
           (let pfx = pfx @ Kind flt @ ''/''
            in if Namespace flt \<noteq> [] then
                 (let pfx = pfx @ Namespace flt @ ''/''
                  in if Name flt \<noteq> [] then pfx @ Name flt @ ''/'' else pfx)
               else pfx)
         else pfx)"

fun List_loop ::
  "S3Storage \<Rightarrow> ObjectInfo list \<Rightarrow> Artifact list \<Rightarrow> Artifact list \<times> go_error option" where
  "List_loop s [] artifacts = (artifacts, None)"
| "List_loop s (object # objectCh) artifacts =
     (case Err object of
        Some e \<Rightarrow> ([], Some (Wrapped ''failed to list objects'' e))
      | None \<Rightarrow>
          if HasSuffix (Key object) ''/'' then List_loop s objectCh artifacts
          else
            (let path = Key object;
                 path = (if prefix s \<noteq> [] then TrimPrefix path (prefix s @ ''/'') else path);
                 artifact = (Artifact_of_Path path)
                   \<lparr>LastUpdateTime := LastModified object, Size := Some (ObjectSize object)\<rparr>
             in List_loop s objectCh (artifacts @ [artifact])))"

definition S3Storage_List ::
  "S3Storage \<Rightarrow> minio_Client \<Rightarrow> ArtifactFilter
     \<Rightarrow> (Artifact list \<times> go_error option) \<times> minio_Client" where
  "S3Storage_List s c flt =
     (let (objectCh, c') = ListObjects c (bucket s) (List_prefix s flt)
      in (List_loop s objectCh [], c'))"

text \<open>
  \<^verbatim>\<open>S3Storage.GarbageCollect\<close>: the marking loop over the sorted listing with its
  index \<open>i\<close>, the deleting loop over the marked paths, and the method. \<open>now\<close> is
  the reading of \<^verbatim>\<open>time.Now()\<close>.
\<close>

fun gc_mark ::
  "time \<Rightarrow> RetentionPolicy \<Rightarrow> nat \<Rightarrow> Artifact list \<Rightarrow> string list \<Rightarrow> string list" where
  "gc_mark now policy i [] toDelete = toDelete"
| "gc_mark now policy i (artifact # artifacts) toDelete =
     (let age = Sub now (LastUpdateTime artifact)
      in if TTL policy < age then
           gc_mark now policy (i + 1) artifacts (toDelete @ [Path artifact])
         else if MaxRecords policy \<le> int i then
           gc_mark now policy (i + 1) artifacts (toDelete @ [Path artifact])
         else gc_mark now policy (i + 1) artifacts toDelete)"

fun gc_delete ::
  "S3Storage \<Rightarrow> minio_Client \<Rightarrow> string list \<Rightarrow> string list \<Rightarrow> string list \<times> minio_Client" where
  "gc_delete s c [] deleted = (deleted, c)"
| "gc_delete s c (path # toDelete) deleted =
     (let artifact = Artifact_of_Path path;
          (err, c') = S3Storage_Delete s c artifact
      in case err of
           Some e \<Rightarrow> gc_delete s c' toDelete deleted
         | None \<Rightarrow> gc_delete s c' toDelete (deleted @ [path]))"

definition S3Storage_GarbageCollect ::
  "time \<Rightarrow> S3Storage \<Rightarrow> minio_Client \<Rightarrow> ArtifactFilter \<Rightarrow> RetentionPolicy
     \<Rightarrow> (string list \<times> go_error option) \<times> minio_Client" where
  "S3Storage_GarbageCollect now s c flt policy =
     (let ((artifacts, err), c1) = S3Storage_List s c flt
      in case err of
           Some e \<Rightarrow> (([], Some e), c1)
         | None \<Rightarrow>
             (let artifacts = sortArtifactsByTime artifacts;
                  toDelete = gc_mark now policy 0 artifacts [];
                  (deleted, c2) = gc_delete s c1 toDelete []
              in ((deleted, None), c2)))"

subsection \<open>The filesystem backend\<close>

text \<open>
  The local file system: the regular files under their paths. \<open>os_faults\<close> is
  what the environment has in store for the coming system calls, one entry per
  call: \<open>None\<close> lets the call see the files, \<open>Some msg\<close> makes it fail with an
  I/O error other than a missing file (permission denied, an unreadable disk).
\<close>

record filesystem =
  files :: "(string \<times> bytes) list"
  os_faults :: "string option list"

definition os_next_fault :: "filesystem \<Rightarrow> string option \<times> filesystem" where
  "os_next_fault fsys =
     (case os_faults fsys of
        [] \<Rightarrow> (None, fsys)
      | f # fs \<Rightarrow> (f, fsys\<lparr>os_faults := fs\<rparr>))"

definition os_Remove :: "filesystem \<Rightarrow> string \<Rightarrow> go_error option \<times> filesystem" where
  "os_Remove fsys name =
     (case os_next_fault fsys of
        (Some msg, fsys') \<Rightarrow> (Some (Failure msg), fsys')
      | (None, fsys') \<Rightarrow>
          (case map_of (files fsys') name of
             None \<Rightarrow> (Some ErrNotExist, fsys')
           | Some content \<Rightarrow> (None, fsys'\<lparr>files := AList.delete name (files fsys')\<rparr>)))"

definition os_Lstat :: "filesystem \<Rightarrow> string \<Rightarrow> go_error option \<times> filesystem" where
  "os_Lstat fsys name =
     (case os_next_fault fsys of
        (Some msg, fsys') \<Rightarrow> (Some (Failure msg), fsys')
      | (None, fsys') \<Rightarrow>
          (case map_of (files fsys') name of
             None \<Rightarrow> (Some ErrNotExist, fsys')
           | Some content \<Rightarrow> (None, fsys')))"

definition os_Open :: "filesystem \<Rightarrow> string \<Rightarrow> (reader \<times> go_error option) \<times> filesystem" where
  "os_Open fsys name =
     (case os_next_fault fsys of
        (Some msg, fsys') \<Rightarrow> ((Reader [] None, Some (Failure msg)), fsys')
      | (None, fsys') \<Rightarrow>
          (case map_of (files fsys') name of
             None \<Rightarrow> ((Reader [] None, Some ErrNotExist), fsys')
           | Some content \<Rightarrow> ((Reader content None, None), fsys')))"

text \<open>
  Modelled from the spec: the legacy \<^verbatim>\<open>controller.Storage\<close> of
  \<^verbatim>\<open>internal/controller\<close>, which \<^verbatim>\<open>FilesystemStorage\<close> embeds and which is not
  among the sources; of its fields, the base directory and the advertised
  hostname.
\<close>

record Storage =
  BasePath :: string
  Hostname' :: string

text \<open>
  Modelled from the spec: \<^verbatim>\<open>Storage.LocalPath\<close>, not among the sources. The
  layout on disk is \<^verbatim>\<open><base>/<kind>/<namespace>/<name>/<filename>\<close>.
\<close>

definition LocalPath :: "Storage \<Rightarrow> Artifact \<Rightarrow> string" where
  "LocalPath st artifact = BasePath st @ ''/'' @ Path artifact"

text \<open>
  Modelled from the spec: \<^verbatim>\<open>Storage.ArtifactExist\<close>, not among the sources. The
  existence test is a stat of the path.
\<close>

definition ArtifactExist :: "Storage \<Rightarrow> filesystem \<Rightarrow> Artifact \<Rightarrow> bool \<times> filesystem" where
  "ArtifactExist st fsys artifact =
     (let (err, fsys') = os_Lstat fsys (LocalPath st artifact)
      in (err = None, fsys'))"

text \<open>
  Modelled from the spec: \<^verbatim>\<open>Storage.Remove\<close>, not among the sources. The removal
  is a remove of the path, which reports a missing file as such.
\<close>

definition Remove :: "Storage \<Rightarrow> filesystem \<Rightarrow> Artifact \<Rightarrow> go_error option \<times> filesystem" where
  "Remove st fsys artifact = os_Remove fsys (LocalPath st artifact)"

text \<open>
  Modelled from the spec: \<^verbatim>\<open>Storage.SetArtifactURL\<close>, not among the sources. The
  URL is \<^verbatim>\<open>http://<hostname>/<path>\<close>.
\<close>

definition SetArtifactURL :: "Storage \<Rightarrow> Artifact \<Rightarrow> Artifact" where
  "SetArtifactURL st artifact =
     artifact\<lparr>URL := ''http://'' @ Hostname' st @ ''/'' @ Path artifact\<rparr>"

text \<open>The methods of \<^verbatim>\<open>FilesystemStorage\<close>, from the source.\<close>

definition FilesystemStorage_Retrieve ::
  "Storage \<Rightarrow> filesystem \<Rightarrow> Artifact \<Rightarrow> (reader \<times> go_error option) \<times> filesystem" where
  "FilesystemStorage_Retrieve st fsys artifact =
     (let (exist, fsys1) = ArtifactExist st fsys artifact
      in if \<not> exist then
           ((Reader [] None, Some (Failure (''artifact not found: '' @ Path artifact))), fsys1)
         else
           (let localPath = LocalPath st artifact;
                ((file, err), fsys2) = os_Open fsys1 localPath
            in case err of
                 Some e \<Rightarrow> ((Reader [] None, Some (Wrapped ''failed to open artifact'' e)), fsys2)
               | None \<Rightarrow> ((file, None), fsys2)))"

definition FilesystemStorage_Exists ::
  "Storage \<Rightarrow> filesystem \<Rightarrow> Artifact \<Rightarrow> (bool \<times> go_error option) \<times> filesystem" where
  "FilesystemStorage_Exists st fsys artifact =
     (let (exist, fsys') = ArtifactExist st fsys artifact
      in ((exist, None), fsys'))"

definition FilesystemStorage_Delete ::
  "Storage \<Rightarrow> filesystem \<Rightarrow> Artifact \<Rightarrow> go_error option \<times> filesystem" where
  "FilesystemStorage_Delete st fsys artifact =
     (let (err, fsys') = Remove st fsys artifact
      in case err of
           Some e \<Rightarrow>
             if \<not> IsNotExist e then (Some (Wrapped ''failed to remove artifact'' e), fsys')
             else (None, fsys')
         | None \<Rightarrow> (None, fsys'))"

text \<open>
  \<^verbatim>\<open>GetURL\<close> stamps a descriptor that has no URL yet; of the descriptor the
  caller reads the URL only.
\<close>

definition FilesystemStorage_GetURL ::
  "Storage \<Rightarrow> filesystem \<Rightarrow> Artifact \<Rightarrow> (string \<times> go_error option) \<times> filesystem" where
  "FilesystemStorage_GetURL st fsys artifact =
     (let artifact = (if URL artifact = [] then SetArtifactURL st artifact else artifact)
      in ((URL artifact, None), fsys))"

subsection \<open>The artifact server\<close>

text \<open>
  The storage \<^verbatim>\<open>Interface\<close> as the server uses it: the three methods it calls,
  each over the state \<open>'p\<close> of the backend behind it, and the outcome of the type
  test \<^verbatim>\<open>s.provider.(*S3Storage)\<close>.
\<close>

record 'p Interface =
  isS3Storage :: bool
  Exists :: "'p \<Rightarrow> Artifact \<Rightarrow> (bool \<times> go_error option) \<times> 'p"
  GetURL :: "'p \<Rightarrow> Artifact \<Rightarrow> (string \<times> go_error option) \<times> 'p"
  Retrieve :: "'p \<Rightarrow> Artifact \<Rightarrow> (reader \<times> go_error option) \<times> 'p"

definition S3Storage_Interface :: "S3Storage \<Rightarrow> minio_Client Interface" where
  "S3Storage_Interface s =
     \<lparr>isS3Storage = True, Exists = S3Storage_Exists s, GetURL = S3Storage_GetURL s,
      Retrieve = S3Storage_Retrieve s\<rparr>"

definition FilesystemStorage_Interface :: "Storage \<Rightarrow> filesystem Interface" where
  "FilesystemStorage_Interface st =
     \<lparr>isS3Storage = False, Exists = FilesystemStorage_Exists st,
      GetURL = FilesystemStorage_GetURL st, Retrieve = FilesystemStorage_Retrieve st\<rparr>"

text \<open>
  \<^verbatim>\<open>http.Request\<close>, the two fields the handler reads, and
  \<^verbatim>\<open>http.ResponseWriter\<close>: the header map, the status code once it is written,
  and the body written so far.
\<close>

record Request =
  Method :: string
  URL_Path :: string

record ResponseWriter =
  Header :: "(string \<times> string) list"
  status :: "nat option"
  written :: bytes

definition new_ResponseWriter :: ResponseWriter where
  "new_ResponseWriter = \<lparr>Header = [], status = None, written = []\<rparr>"

definition StatusOK :: nat where "StatusOK = 200"
definition StatusTemporaryRedirect :: nat where "StatusTemporaryRedirect = 307"
definition StatusBadRequest :: nat where "StatusBadRequest = 400"
definition StatusNotFound :: nat where "StatusNotFound = 404"
definition StatusMethodNotAllowed :: nat where "StatusMethodNotAllowed = 405"
definition StatusInternalServerError :: nat where "StatusInternalServerError = 500"

definition Header_Set :: "ResponseWriter \<Rightarrow> string \<Rightarrow> string \<Rightarrow> ResponseWriter" where
  "Header_Set w k v = w\<lparr>Header := AList.update k v (Header w)\<rparr>"

definition Header_Get :: "ResponseWriter \<Rightarrow> string \<Rightarrow> string" where
  "Header_Get w k = (case map_of (Header w) k of None \<Rightarrow> [] | Some v \<Rightarrow> v)"

text \<open>\<^verbatim>\<open>WriteHeader\<close>: the first status code written stands.\<close>

definition WriteHeader :: "ResponseWriter \<Rightarrow> nat \<Rightarrow> ResponseWriter" where
  "WriteHeader w code = (if status w = None then w\<lparr>status := Some code\<rparr> else w)"

text \<open>\<^verbatim>\<open>Write\<close>: writes the status 200 first when none is written yet.\<close>

definition Write :: "ResponseWriter \<Rightarrow> bytes \<Rightarrow> ResponseWriter" where
  "Write w p = (let w = WriteHeader w StatusOK in w\<lparr>written := written w @ p\<rparr>)"

text \<open>The status the client sees: 200 when the handler returns without writing one.\<close>

definition response_status :: "ResponseWriter \<Rightarrow> nat" where
  "response_status w = (case status w of None \<Rightarrow> StatusOK | Some code \<Rightarrow> code)"

definition http_Error :: "ResponseWriter \<Rightarrow> string \<Rightarrow> nat \<Rightarrow> ResponseWriter" where
  "http_Error w error code =
     (let w = Header_Set w ''Content-Type'' ''text/plain; charset=utf-8'';
          w = Header_Set w ''X-Content-Type-Options'' ''nosniff'';
          w = WriteHeader w code
      in Write w (error @ [CHR 0x0A]))"

definition http_NotFound :: "ResponseWriter \<Rightarrow> ResponseWriter" where
  "http_NotFound w = http_Error w ''404 page not found'' StatusNotFound"

text \<open>
  \<^verbatim>\<open>http.Redirect\<close> to a URL that has a scheme, as a presigned URL has: the URL
  goes into \<^verbatim>\<open>Location\<close> as it is, and a request with method GET gets a short
  HTML note. (The library resolves a relative URL against the request path and
  escapes bytes outside ASCII first; neither is modelled.)
\<close>

definition htmlEscape :: "string \<Rightarrow> string" where
  "htmlEscape s =
     concat (map (\<lambda>ch.
        if ch = CHR ''&'' then ''&amp;''
        else if ch = CHR ''<'' then ''&lt;''
        else if ch = CHR ''>'' then ''&gt;''
        else if ch = CHR 0x22 then ''&#34;''
        else if ch = CHR 0x27 then ''&#39;''
        else [ch]) s)"

definition http_Redirect :: "ResponseWriter \<Rightarrow> Request \<Rightarrow> string \<Rightarrow> nat \<Rightarrow> ResponseWriter" where
  "http_Redirect w r url code =
     (let hadCT = (map_of (Header w) ''Content-Type'' \<noteq> None);
          w = Header_Set w ''Location'' url;
          w = (if \<not> hadCT \<and> (Method r = ''GET'' \<or> Method r = ''HEAD'')
               then Header_Set w ''Content-Type'' ''text/html; charset=utf-8'' else w);
          w = WriteHeader w code
      in if \<not> hadCT \<and> Method r = ''GET''
         then Write w (''<a href='' @ [CHR 0x22] @ htmlEscape url @ [CHR 0x22] @ ''>''
                       @ ''Temporary Redirect'' @ ''</a>.'' @ [CHR 0x0A, CHR 0x0A])
         else w)"

text \<open>
  \<^verbatim>\<open>io.Copy(w, reader)\<close>: the bytes the reader delivers are written to the
  response; a reader that delivers none causes no write.
\<close>

definition io_Copy :: "ResponseWriter \<Rightarrow> reader \<Rightarrow> go_error option \<times> ResponseWriter" where
  "io_Copy w rd =
     (case rd of Reader content err \<Rightarrow> (err, if content = [] then w else Write w content))"

text \<open>\<^verbatim>\<open>ArtifactServer.serveArtifact\<close>.\<close>

definition serveArtifact ::
  "'p Interface \<Rightarrow> 'p \<Rightarrow> ResponseWriter \<Rightarrow> Request \<Rightarrow> ResponseWriter \<times> 'p" where
  "serveArtifact provider p w r =
     (if Method r \<noteq> ''GET'' \<and> Method r \<noteq> ''HEAD'' then
        (http_Error w ''Method not allowed'' StatusMethodNotAllowed, p)
      else
        (let path = TrimPrefix (URL_Path r) ''/''
         in if path = [] then (http_Error w ''Artifact path required'' StatusBadRequest, p)
            else
              (let artifact = Artifact_of_Path path;
                   ((exists, err), p1) = Exists provider p artifact
               in if err \<noteq> None then
                    (http_Error w ''Internal server error'' StatusInternalServerError, p1)
                  else if \<not> exists then (http_NotFound w, p1)
                  else if Method r = ''HEAD'' then
                    (WriteHeader (Header_Set w ''Content-Type'' ''application/gzip'') StatusOK, p1)
                  else if isS3Storage provider then
                    (let ((url, err), p2) = GetURL provider p1 artifact
                     in if err \<noteq> None then
                          (http_Error w ''Internal server error'' StatusInternalServerError, p2)
                        else (http_Redirect w r url StatusTemporaryRedirect, p2))
                  else
                    (let ((reader, err), p2) = Retrieve provider p1 artifact
                     in if err \<noteq> None then
                          (http_Error w ''Internal server error'' StatusInternalServerError, p2)
                        else
                          (let w = Header_Set w ''Content-Type'' ''application/gzip'';
                               w = Header_Set w ''Cache-Control''
                                     ''no-cache, no-store, must-revalidate''
                           in (snd (io_Copy w reader), p2))))))"

subsection \<open>The archive builder of the object-store backend\<close>

text \<open>
  What \<^verbatim>\<open>os.FileInfo\<close> tells about an entry of the source directory: \<open>BaseName\<close>
  is \<^verbatim>\<open>Name()\<close>, \<open>FileSize\<close> is \<^verbatim>\<open>Size()\<close>, \<open>FileType\<close> and \<open>Perm\<close> are the type
  and the permission, setuid, setgid and sticky bits of \<^verbatim>\<open>Mode()\<close>,
  \<open>FileModTime\<close> is \<^verbatim>\<open>ModTime()\<close>. \<^verbatim>\<open>Sys()\<close> holds the owner and group as the
  host's file system records them, and \<open>Owner_Uname\<close> and \<open>Owner_Gname\<close> are the
  names the host's user database gives them (empty when it has none).
\<close>

datatype file_type = Regular | Directory | Symlink | Device | NamedPipe | Socket

record FileInfo =
  BaseName :: string
  FileSize :: int
  FileType :: file_type
  Perm :: nat
  FileModTime :: time
  Owner_Uid :: int
  Owner_Gid :: int
  Owner_Uname :: string
  Owner_Gname :: string

definition IsDir :: "FileInfo \<Rightarrow> bool" where
  "IsDir info \<longleftrightarrow> FileType info = Directory"

definition IsRegular :: "FileInfo \<Rightarrow> bool" where
  "IsRegular info \<longleftrightarrow> FileType info = Regular"

text \<open>
  \<^verbatim>\<open>tar.Header\<close> (\<open>HeaderName\<close> and \<open>HeaderSize\<close> are its \<^verbatim>\<open>Name\<close> and \<^verbatim>\<open>Size\<close>;
  access and change time, which the writer drops, are left out).
\<close>

record Header =
  Typeflag :: file_type
  HeaderName :: string
  HeaderSize :: int
  Mode :: nat
  Uid :: int
  Gid :: int
  Uname :: string
  Gname :: string
  ModTime :: time
  Devmajor :: int
  Devminor :: int

text \<open>
  \<^verbatim>\<open>tar.FileInfoHeader\<close> on a Unix host: name, mode bits and modification time
  from the file info, the size of a regular file, owner and group with their
  names from \<^verbatim>\<open>Sys()\<close> and the user database; device numbers are filled in for
  devices only (the model leaves them zero); a socket is refused.
\<close>

definition FileInfoHeader :: "FileInfo \<Rightarrow> Header \<times> go_error option" where
  "FileInfoHeader fi =
     (let h = \<lparr>Typeflag = FileType fi,
               HeaderName = (if IsDir fi then BaseName fi @ ''/'' else BaseName fi),
               HeaderSize = (if IsRegular fi then FileSize fi else 0),
               Mode = Perm fi,
               Uid = Owner_Uid fi, Gid = Owner_Gid fi,
               Uname = Owner_Uname fi, Gname = Owner_Gname fi,
               ModTime = FileModTime fi,
               Devmajor = 0, Devminor = 0\<rparr>
      in if FileType fi = Socket
         then (h, Some (Failure ''archive/tar: sockets not supported''))
         else (h, None))"

text \<open>
  \<^verbatim>\<open>tar.Writer\<close>: the entries written so far, each a header and the content
  written under it. \<^verbatim>\<open>WriteHeader\<close> first flushes, which fails while the entry
  before is short of the size its header announces; given no explicit format it
  rounds the modification time to the second. \<^verbatim>\<open>Write\<close> refuses more bytes than
  the header announces.
\<close>

record tar_Writer =
  entries :: "(Header \<times> bytes) list"

definition tar_NewWriter :: tar_Writer where
  "tar_NewWriter = \<lparr>entries = []\<rparr>"

definition Round_Second :: "time \<Rightarrow> time" where
  "Round_Second t = ((t + Second div 2) div Second) * Second"

definition missing_bytes :: "tar_Writer \<Rightarrow> int" where
  "missing_bytes tw =
     (case rev (entries tw) of
        [] \<Rightarrow> 0
      | (hdr, content) # es \<Rightarrow> HeaderSize hdr - int (length content))"

definition tar_Flush :: "tar_Writer \<Rightarrow> go_error option" where
  "tar_Flush tw =
     (if 0 < missing_bytes tw then Some (Failure ''archive/tar: missed writing bytes'')
      else None)"

definition tar_WriteHeader :: "tar_Writer \<Rightarrow> Header \<Rightarrow> go_error option \<times> tar_Writer" where
  "tar_WriteHeader tw hdr =
     (case tar_Flush tw of
        Some err \<Rightarrow> (Some err, tw)
      | None \<Rightarrow>
          (None, tw\<lparr>entries := entries tw @ [(hdr\<lparr>ModTime := Round_Second (ModTime hdr)\<rparr>, [])]\<rparr>))"

definition tar_Write :: "tar_Writer \<Rightarrow> bytes \<Rightarrow> go_error option \<times> tar_Writer" where
  "tar_Write tw b =
     (case rev (entries tw) of
        [] \<Rightarrow> (if b = [] then None else Some (Failure ''archive/tar: write too long''), tw)
      | (hdr, content) # es \<Rightarrow>
          (let n = nat (HeaderSize hdr - int (length content))
           in (if n < length b then Some (Failure ''archive/tar: write too long'') else None,
               tw\<lparr>entries := rev es @ [(hdr, content @ take n b)]\<rparr>)))"

definition tar_Close :: "tar_Writer \<Rightarrow> go_error option" where
  "tar_Close tw = tar_Flush tw"

text \<open>\<^verbatim>\<open>io.Copy(tw, file)\<close>: the write error first, else the read error.\<close>

definition tar_Copy :: "tar_Writer \<Rightarrow> reader \<Rightarrow> go_error option \<times> tar_Writer" where
  "tar_Copy tw file =
     (case file of
        Reader content rerr \<Rightarrow>
          (case tar_Write tw content of
             (Some err, tw') \<Rightarrow> (Some err, tw')
           | (None, tw') \<Rightarrow> (rerr, tw')))"

text \<open>
  The source directory as \<^verbatim>\<open>filepath.Walk\<close> finds it: a file with the outcome of
  \<^verbatim>\<open>os.Open\<close> on it, a directory with the outcome of reading it and its entries
  in lexical order, or an entry whose \<^verbatim>\<open>Lstat\<close> fails.
\<close>

datatype fs_tree =
    File FileInfo "reader \<times> go_error option"
  | Dir FileInfo "go_error option" "fs_tree list"
  | Unreadable string go_error

fun base_name :: "fs_tree \<Rightarrow> string" where
  "base_name (File info opened) = BaseName info"
| "base_name (Dir info err names) = BaseName info"
| "base_name (Unreadable name err) = name"

fun is_Dir :: "fs_tree \<Rightarrow> bool" where
  "is_Dir (Dir info err names) = True"
| "is_Dir _ = False"

text \<open>The path of an entry relative to the source directory, \<^verbatim>\<open>.\<close> for the root.\<close>

definition Rel_Join :: "string \<Rightarrow> string \<Rightarrow> string" where
  "Rel_Join relPath name = (if relPath = ''.'' then name else relPath @ ''/'' @ name)"

record ArchiveOptions =
  SourcePath :: string
  Filter :: "(string \<Rightarrow> bool \<Rightarrow> bool) option"

text \<open>What a \<^verbatim>\<open>WalkFunc\<close> returns: \<^verbatim>\<open>nil\<close>, \<^verbatim>\<open>filepath.SkipDir\<close> or an error.\<close>

datatype walk_result = Continue | SkipDir | Stop go_error

text \<open>
  The function literal that \<^verbatim>\<open>S3Storage.Archive\<close> hands to \<^verbatim>\<open>filepath.Walk\<close>, over
  the tar writer it writes to. \<open>relPath\<close> is the result of \<^verbatim>\<open>filepath.Rel\<close>, which
  does not fail on a path below the source directory.
\<close>

definition Archive_walkFn ::
  "ArchiveOptions \<Rightarrow> string \<Rightarrow> FileInfo \<Rightarrow> reader \<times> go_error option \<Rightarrow> go_error option
     \<Rightarrow> tar_Writer \<Rightarrow> walk_result \<times> tar_Writer" where
  "Archive_walkFn opts relPath info opened err tw =
     (case err of
        Some e \<Rightarrow> (Stop e, tw)
      | None \<Rightarrow>
          if (case Filter opts of None \<Rightarrow> False | Some f \<Rightarrow> f relPath (IsDir info)) then
            (if IsDir info then (SkipDir, tw) else (Continue, tw))
          else if \<not> IsRegular info then (Continue, tw)
          else
            (case FileInfoHeader info of
               (header, Some e) \<Rightarrow> (Stop e, tw)
             | (header, None) \<Rightarrow>
                 (let header = header\<lparr>HeaderName := relPath\<rparr>
                  in case tar_WriteHeader tw header of
                       (Some e, tw1) \<Rightarrow> (Stop e, tw1)
                     | (None, tw1) \<Rightarrow>
                         (case opened of
                            (file, Some e) \<Rightarrow> (Stop e, tw1)
                          | (file, None) \<Rightarrow>
                              (case tar_Copy tw1 file of
                                 (Some e, tw2) \<Rightarrow> (Stop e, tw2)
                               | (None, tw2) \<Rightarrow> (Continue, tw2))))))"

text \<open>
  \<^verbatim>\<open>filepath.Walk\<close> with that function: \<open>walk\<close> visits an entry and, for a
  directory that the function does not skip, its entries; \<open>walk_names\<close> is the
  loop over the entries of a directory. An entry whose \<^verbatim>\<open>Lstat\<close> fails is handed
  to the function with the error, which the function returns at once.
\<close>

fun walk :: "ArchiveOptions \<Rightarrow> string \<Rightarrow> fs_tree \<Rightarrow> tar_Writer \<Rightarrow> walk_result \<times> tar_Writer"
and walk_names ::
  "ArchiveOptions \<Rightarrow> string \<Rightarrow> fs_tree list \<Rightarrow> tar_Writer \<Rightarrow> walk_result \<times> tar_Writer" where
  "walk opts relPath (File info opened) tw = Archive_walkFn opts relPath info opened None tw"
| "walk opts relPath (Unreadable name err) tw = (Stop err, tw)"
| "walk opts relPath (Dir info err names) tw =
     (case Archive_walkFn opts relPath info (Reader [] None, None) err tw of
        (Continue, tw') \<Rightarrow>
          if err \<noteq> None then (Continue, tw') else walk_names opts relPath names tw'
      | (res, tw') \<Rightarrow> (res, tw'))"
| "walk_names opts relPath [] tw = (Continue, tw)"
| "walk_names opts relPath (entry # names) tw =
     (case walk opts (Rel_Join relPath (base_name entry)) entry tw of
        (Continue, tw') \<Rightarrow> walk_names opts relPath names tw'
      | (SkipDir, tw') \<Rightarrow>
          if is_Dir entry then walk_names opts relPath names tw' else (SkipDir, tw')
      | (Stop e, tw') \<Rightarrow> (Stop e, tw'))"

definition filepath_Walk ::
  "ArchiveOptions \<Rightarrow> fs_tree \<Rightarrow> tar_Writer \<Rightarrow> go_error option \<times> tar_Writer" where
  "filepath_Walk opts root tw =
     (case walk opts ''.'' root tw of
        (Continue, tw') \<Rightarrow> (None, tw')
      | (SkipDir, tw') \<Rightarrow> (None, tw')
      | (Stop e, tw') \<Rightarrow> (Some e, tw'))"

text \<open>
  \<^verbatim>\<open>S3Storage.Archive\<close> over the source directory \<open>root\<close>. \<open>encode\<close> is the
  serialisation of the entries as a tar stream wrapped in gzip; closing the gzip
  writer over a buffer does not fail.
\<close>

definition S3Storage_Archive ::
  "((Header \<times> bytes) list \<Rightarrow> bytes) \<Rightarrow> Algorithm \<Rightarrow> time \<Rightarrow> S3Storage \<Rightarrow> minio_Client
     \<Rightarrow> Artifact \<Rightarrow> ArchiveOptions \<Rightarrow> fs_tree \<Rightarrow> (go_error option \<times> Artifact) \<times> minio_Client" where
  "S3Storage_Archive encode Canonical now s c artifact opts root =
     (case filepath_Walk opts root tar_NewWriter of
        (Some err, tw) \<Rightarrow> ((Some (Wrapped ''failed to create archive'' err), artifact), c)
      | (None, tw) \<Rightarrow>
          (case tar_Close tw of
             Some err \<Rightarrow> ((Some err, artifact), c)
           | None \<Rightarrow>
               S3Storage_Store Canonical now s c artifact (Reader (encode (entries tw)) None)))"


subsection \<open>The sort orders a listing newest first\<close>

text \<open>\<open>newer_eq a b\<close>: \<open>a\<close> is at least as recent as \<open>b\<close>.\<close>

definition newer_eq :: "Artifact \<Rightarrow> Artifact \<Rightarrow> bool" where
  "newer_eq a b \<longleftrightarrow> LastUpdateTime b \<le> LastUpdateTime a"

lemma mset_sort_inner: "i < j \<Longrightarrow> mset (sort_inner i j artifacts) = mset artifacts"
proof (induction i j artifacts rule: sort_inner.induct)
  case (1 i j artifacts)
  show ?case
  proof (cases "j < length artifacts")
    case True
    with "1.prems" have "mset (artifacts[i := artifacts ! j, j := artifacts ! i]) = mset artifacts"
      by (simp add: mset_swap)
    with True "1.IH" "1.prems" show ?thesis
      by (subst sort_inner.simps) simp
  next
    case False
    then show ?thesis
      by (subst sort_inner.simps) simp
  qed
qed

lemma take_sort_inner: "i < j \<Longrightarrow> take i (sort_inner i j artifacts) = take i artifacts"
proof (induction i j artifacts rule: sort_inner.induct)
  case (1 i j artifacts)
  show ?case
  proof (cases "j < length artifacts")
    case True
    with "1.IH" "1.prems" show ?thesis
      by (subst sort_inner.simps) simp
  next
    case False
    then show ?thesis
      by (subst sort_inner.simps) simp
  qed
qed

lemma head_sort_inner:
  "i < j \<Longrightarrow> \<forall>k. i < k \<and> k < j \<and> k < length artifacts \<longrightarrow> newer_eq (artifacts ! i) (artifacts ! k) \<Longrightarrow>
   i < k \<Longrightarrow> k < length artifacts \<Longrightarrow>
   newer_eq (sort_inner i j artifacts ! i) (sort_inner i j artifacts ! k)"
proof (induction i j artifacts rule: sort_inner.induct)
  case (1 i j artifacts)
  show ?case
  proof (cases "j < length artifacts")
    case True
    let ?next = "if After (LastUpdateTime (artifacts ! j)) (LastUpdateTime (artifacts ! i))
           then artifacts[i := artifacts ! j, j := artifacts ! i]
           else artifacts"
    have len: "length ?next = length artifacts" by simp
    have inv: "\<forall>k. i < k \<and> k < j + 1 \<and> k < length ?next \<longrightarrow> newer_eq (?next ! i) (?next ! k)"
      using "1.prems"(1,2) True
      by (auto simp: newer_eq_def After_def nth_list_update less_Suc_eq)
    have "newer_eq (sort_inner i (j + 1) ?next ! i) (sort_inner i (j + 1) ?next ! k)"
      using "1.IH"[OF True _ inv] "1.prems" len by simp
    with True show ?thesis
      by (subst (1 2) sort_inner.simps) simp
  next
    case False
    with "1.prems" show ?thesis
      by (subst (1 2) sort_inner.simps) simp
  qed
qed


lemma mset_drop_sort_inner:
  assumes "i < j"
  shows "mset (drop i (sort_inner i j artifacts)) = mset (drop i artifacts)"
proof -
  let ?ys = "sort_inner i j artifacts"
  have "mset (take i ?ys) + mset (drop i ?ys) = mset (take i artifacts) + mset (drop i artifacts)"
    unfolding mset_append[symmetric] append_take_drop_id
    using assms by (rule mset_sort_inner)
  then show ?thesis
    using take_sort_inner[OF assms, of artifacts] by simp
qed

lemma mset_sort_outer: "mset (sort_outer i artifacts) = mset artifacts"
proof (induction i artifacts rule: sort_outer.induct)
  case (1 i artifacts)
  show ?case
  proof (cases "i < length artifacts")
    case True
    with "1.IH" show ?thesis
      by (subst sort_outer.simps) (simp add: mset_sort_inner)
  next
    case False
    then show ?thesis
      by (subst sort_outer.simps) simp
  qed
qed

text \<open>
  The invariant of the outer loop: the first \<open>i\<close> entries are in their final
  order and each of them is at least as recent as every later entry.
\<close>

definition sorted_upto :: "nat \<Rightarrow> Artifact list \<Rightarrow> bool" where
  "sorted_upto i artifacts \<longleftrightarrow>
     sorted_wrt newer_eq (take i artifacts) \<and>
     (\<forall>a \<in> set (take i artifacts). \<forall>b \<in> set (drop i artifacts). newer_eq a b)"

lemma sorted_upto_step:
  assumes inv: "sorted_upto i artifacts" and i: "i < length artifacts"
  shows "sorted_upto (i + 1) (sort_inner i (i + 1) artifacts)"
proof -
  let ?ys = "sort_inner i (i + 1) artifacts"
  have len: "length ?ys = length artifacts"
    by (rule length_sort_inner)
  have tk: "take i ?ys = take i artifacts"
    by (rule take_sort_inner) simp
  have dr: "set (drop i ?ys) = set (drop i artifacts)"
    using mset_drop_sort_inner[of i "i + 1" artifacts] by (metis less_add_one set_mset_mset)
  have tk1: "take (i + 1) ?ys = take i artifacts @ [?ys ! i]"
    using i len tk by (simp add: take_Suc_conv_app_nth)
  have dr1: "drop i ?ys = ?ys ! i # drop (i + 1) ?ys"
    using i len by (simp add: Cons_nth_drop_Suc)
  have hd_in: "?ys ! i \<in> set (drop i artifacts)"
    using dr dr1 by (metis list.set_intros(1))
  have tl_sub: "set (drop (i + 1) ?ys) \<subseteq> set (drop i artifacts)"
    using dr dr1 by (metis set_subset_Cons)
  have head: "newer_eq (?ys ! i) b" if "b \<in> set (drop (i + 1) ?ys)" for b
  proof -
    from that obtain k where k: "k < length (drop (i + 1) ?ys)" "b = drop (i + 1) ?ys ! k"
      by (auto simp: in_set_conv_nth)
    then have "b = ?ys ! (i + 1 + k)" "i + 1 + k < length artifacts"
      using len by auto
    moreover have "\<forall>k. i < k \<and> k < i + 1 \<and> k < length artifacts \<longrightarrow>
        newer_eq (artifacts ! i) (artifacts ! k)"
      by auto
    ultimately show ?thesis
      using head_sort_inner[of i "i + 1" artifacts "i + 1 + k"] by simp
  qed
  have "sorted_wrt newer_eq (take (i + 1) ?ys)"
    using inv hd_in unfolding tk1 sorted_upto_def by (simp add: sorted_wrt_append)
  moreover have "\<forall>a \<in> set (take (i + 1) ?ys). \<forall>b \<in> set (drop (i + 1) ?ys). newer_eq a b"
    using inv tl_sub head unfolding tk1 sorted_upto_def by auto
  ultimately show ?thesis
    by (simp add: sorted_upto_def)
qed

lemma sorted_sort_outer:
  "sorted_upto i artifacts \<Longrightarrow> sorted_wrt newer_eq (sort_outer i artifacts)"
proof (induction i artifacts rule: sort_outer.induct)
  case (1 i artifacts)
  show ?case
  proof (cases "i < length artifacts")
    case True
    with "1.IH" sorted_upto_step[OF "1.prems"] show ?thesis
      by (subst sort_outer.simps) simp
  next
    case False
    with "1.prems" show ?thesis
      by (subst sort_outer.simps) (simp add: sorted_upto_def)
  qed
qed

lemma sorted_sortArtifactsByTime: "sorted_wrt newer_eq (sortArtifactsByTime artifacts)"
  unfolding sortArtifactsByTime_def by (rule sorted_sort_outer) (simp add: sorted_upto_def)

lemma mset_sortArtifactsByTime: "mset (sortArtifactsByTime artifacts) = mset artifacts"
  unfolding sortArtifactsByTime_def by (rule mset_sort_outer)

text \<open>
  C3, amended. \<^verbatim>\<open>sortArtifactsByTime\<close> returns a permutation of its input in
  which no artifact comes before a strictly more recent one (\<open>LastUpdateTime\<close>
  descending); nothing is promised about the order among artifacts of equal
  \<open>LastUpdateTime\<close>.
\<close>

theorem sortArtifactsByTime_newest_first:
  "sorted_wrt newer_eq (sortArtifactsByTime artifacts) \<and>
   mset (sortArtifactsByTime artifacts) = mset artifacts"
  by (simp add: sorted_sortArtifactsByTime mset_sortArtifactsByTime)


subsection \<open>Retention\<close>

text \<open>
  The retention rule in the words of the specification: over the listing sorted
  newest first, an artifact is marked iff its age exceeds the TTL or its
  zero-based position is at least \<open>MaxRecords\<close>.
\<close>

definition spec_marked :: "time \<Rightarrow> RetentionPolicy \<Rightarrow> Artifact list \<Rightarrow> string list" where
  "spec_marked now policy listing =
     map (\<lambda>(i, a). Path a)
       (filter (\<lambda>(i, a). TTL policy < Sub now (LastUpdateTime a) \<or> MaxRecords policy \<le> int i)
          (enumerate 0 listing))"

text \<open>
  Deleting the marked artifacts one after the other, whatever the outcome of the
  deletions before: the outcome of each deletion, in order, and the client
  afterwards.
\<close>

fun delete_each ::
  "S3Storage \<Rightarrow> minio_Client \<Rightarrow> string list \<Rightarrow> go_error option list \<times> minio_Client" where
  "delete_each s c [] = ([], c)"
| "delete_each s c (path # paths) =
     (let (err, c') = S3Storage_Delete s c (Artifact_of_Path path);
          (errs, c'') = delete_each s c' paths
      in (err # errs, c''))"

lemma gc_mark_eq:
  "gc_mark now policy i artifacts toDelete =
     toDelete @ map (\<lambda>(i, a). Path a)
       (filter (\<lambda>(i, a). TTL policy < Sub now (LastUpdateTime a) \<or> MaxRecords policy \<le> int i)
          (enumerate i artifacts))"
  by (induction artifacts arbitrary: i toDelete) (simp_all add: Let_def)

lemma gc_delete_eq:
  "gc_delete s c toDelete deleted =
     (deleted @ map fst (filter (\<lambda>(path, err). err = None)
                           (zip toDelete (fst (delete_each s c toDelete)))),
      snd (delete_each s c toDelete))"
  by (induction toDelete arbitrary: c deleted)
     (simp_all add: Let_def split: prod.splits option.splits)

lemma faults_next_fault: "faults (snd (next_fault c)) = tl (faults c)"
  by (simp add: next_fault_def split: list.splits)

lemma objects_next_fault: "objects (snd (next_fault c)) = objects c"
  by (simp add: next_fault_def split: list.splits)

lemma Delete_objects_subset:
  "set (objects (snd (S3Storage_Delete s c a))) \<subseteq> set (objects c)"
  using objects_next_fault[of c]
  by (auto simp: S3Storage_Delete_def RemoveObject_def Let_def AList.delete_eq
           split: prod.splits option.splits)

lemma Delete_success_absent:
  "fst (S3Storage_Delete s c a) = None \<Longrightarrow>
     (bucket s, artifactKey s a) \<notin> fst ` set (objects (snd (S3Storage_Delete s c a)))"
  by (auto simp: S3Storage_Delete_def RemoveObject_def Let_def AList.delete_eq
           split: prod.splits option.splits)

lemma delete_each_subset:
  "set (objects (snd (delete_each s c paths))) \<subseteq> set (objects c)"
proof (induction paths arbitrary: c)
  case Nil
  show ?case by simp
next
  case (Cons path paths)
  obtain err c' where d: "S3Storage_Delete s c (Artifact_of_Path path) = (err, c')"
    by (cases "S3Storage_Delete s c (Artifact_of_Path path)")
  have "set (objects (snd (delete_each s c' paths))) \<subseteq> set (objects c')"
    by (rule Cons.IH)
  also have "\<dots> \<subseteq> set (objects c)"
    using Delete_objects_subset[of s c "Artifact_of_Path path"] d by simp
  finally show ?case
    using d by (simp add: Let_def split_beta)
qed

lemma delete_each_length: "length (fst (delete_each s c paths)) = length paths"
  by (induction paths arbitrary: c) (simp_all add: Let_def split_beta)

lemma delete_each_absent:
  "(path, None) \<in> set (zip paths (fst (delete_each s c paths))) \<Longrightarrow>
     (bucket s, artifactKey s (Artifact_of_Path path))
       \<notin> fst ` set (objects (snd (delete_each s c paths)))"
proof (induction paths arbitrary: c)
  case Nil
  then show ?case by simp
next
  case (Cons p paths)
  obtain err c' where d: "S3Storage_Delete s c (Artifact_of_Path p) = (err, c')"
    by (cases "S3Storage_Delete s c (Artifact_of_Path p)")
  obtain errs c'' where e: "delete_each s c' paths = (errs, c'')"
    by (cases "delete_each s c' paths")
  have sub: "set (objects c'') \<subseteq> set (objects c')"
    using delete_each_subset[of s c' paths] e by simp
  from Cons.prems d e
  consider "path = p" "err = None" | "(path, None) \<in> set (zip paths errs)"
    by (auto simp: Let_def)
  then show ?case
  proof cases
    case 1
    then have "(bucket s, artifactKey s (Artifact_of_Path path)) \<notin> fst ` set (objects c')"
      using Delete_success_absent[of s c "Artifact_of_Path p"] d by simp
    with sub show ?thesis
      using d e by (auto simp: Let_def)
  next
    case 2
    then show ?thesis
      using Cons.IH[of c'] d e by (simp add: Let_def)
  qed
qed


lemma Delete_no_faults:
  "faults c = [] \<Longrightarrow> fst (S3Storage_Delete s c a) = None \<and> faults (snd (S3Storage_Delete s c a)) = []"
  by (simp add: S3Storage_Delete_def RemoveObject_def next_fault_def Let_def)

lemma delete_each_no_faults:
  "faults c = [] \<Longrightarrow> fst (delete_each s c paths) = replicate (length paths) None"
proof (induction paths arbitrary: c)
  case Nil
  show ?case by simp
next
  case (Cons p paths)
  then show ?case
    using Delete_no_faults[of c s "Artifact_of_Path p"]
    by (simp add: Let_def split_beta)
qed

lemma deleted_all_no_faults:
  "map fst (filter (\<lambda>(path, err). err = None) (zip paths (replicate (length paths) None))) = paths"
  by (induction paths) simp_all


lemma GarbageCollect_eq:
  assumes "S3Storage_List s c flt = ((artifacts, None), c1)"
  shows "S3Storage_GarbageCollect now s c flt policy =
     ((map fst (filter (\<lambda>(path, err). err = None)
         (zip (spec_marked now policy (sortArtifactsByTime artifacts))
            (fst (delete_each s c1 (spec_marked now policy (sortArtifactsByTime artifacts)))))),
       None),
      snd (delete_each s c1 (spec_marked now policy (sortArtifactsByTime artifacts))))"
  using assms
  by (simp add: S3Storage_GarbageCollect_def Let_def gc_mark_eq gc_delete_eq spec_marked_def)



text \<open>
  C2. \<^verbatim>\<open>GarbageCollect\<close> over a scope whose listing succeeds sorts the listing
  newest first (a permutation of it, non-increasing in \<open>LastUpdateTime\<close>), marks
  an artifact iff its age \<open>Sub now LastUpdateTime\<close> exceeds the TTL or its position
  in the sorted listing is at least \<open>MaxRecords\<close>, attempts the deletion of every
  marked path in order whether or not earlier deletions failed, and returns
  without error exactly the paths whose deletion succeeded; none of these is in
  the store afterwards.
\<close>

theorem GarbageCollect_retention:
  fixes now :: time and policy :: RetentionPolicy
  assumes "S3Storage_List s c flt = ((artifacts, None), c1)"
  defines "listing \<equiv> sortArtifactsByTime artifacts"
  defines "toDelete \<equiv> spec_marked now policy listing"
  defines "outcomes \<equiv> fst (delete_each s c1 toDelete)"
  defines "deleted \<equiv> map fst (filter (\<lambda>(path, err). err = None) (zip toDelete outcomes))"
  shows "sorted_wrt newer_eq listing \<and> mset listing = mset artifacts \<and>
         length outcomes = length toDelete \<and>
         S3Storage_GarbageCollect now s c flt policy =
           ((deleted, None), snd (delete_each s c1 toDelete)) \<and>
         (\<forall>path \<in> set deleted.
            (bucket s, artifactKey s (Artifact_of_Path path))
              \<notin> fst ` set (objects (snd (delete_each s c1 toDelete))))"
proof -
  have "\<forall>path \<in> set deleted.
          (bucket s, artifactKey s (Artifact_of_Path path))
            \<notin> fst ` set (objects (snd (delete_each s c1 toDelete)))"
  proof
    fix path
    assume "path \<in> set deleted"
    then have "(path, None) \<in> set (zip toDelete (fst (delete_each s c1 toDelete)))"
      by (auto simp: deleted_def outcomes_def)
    then show "(bucket s, artifactKey s (Artifact_of_Path path))
            \<notin> fst ` set (objects (snd (delete_each s c1 toDelete)))"
      by (rule delete_each_absent)
  qed
  then show ?thesis
    using GarbageCollect_eq[OF assms(1), of now policy]
    by (simp add: sorted_sortArtifactsByTime mset_sortArtifactsByTime delete_each_length
        listing_def toDelete_def outcomes_def deleted_def)
qed



lemma HasPrefix_append: "HasPrefix (p @ q) p"
  by (simp add: HasPrefix_def)


















subsection \<open>A concrete store\<close>

text \<open>
  A bucket \<^verbatim>\<open>artifacts\<close> with key prefix \<^verbatim>\<open>flux\<close> that holds revisions of the
  resource \<^verbatim>\<open>gitrepository/default/app\<close>. Its presigner accepts an expiry from one
  second to seven days, as the MinIO client does.
\<close>

definition example_presigner :: "string \<Rightarrow> string \<Rightarrow> duration \<Rightarrow> go_error + string" where
  "example_presigner b k expires =
     (if expires < Second then Inl (Failure ''Expires cannot be lesser than 1 second.'')
      else if 604800 * Second < expires then
        Inl (Failure ''Expires cannot be greater than 7 days.'')
      else Inr (''https://s3.example/'' @ b @ ''/'' @ k @ ''?X-Amz-Signature=0''))"

definition example_storage :: S3Storage where
  "example_storage =
     \<lparr>bucket = ''artifacts'', prefix = ''flux'', hostname = ''demo.local'',
      urlExpiration = 15 * Minute\<rparr>"

definition example_object :: "string \<Rightarrow> time \<Rightarrow> (string \<times> string) \<times> stored_object" where
  "example_object name t =
     ((''artifacts'', ''flux/gitrepository/default/app/'' @ name),
      \<lparr>data = ''hello'', ContentType = ''application/gzip'', UserMetadata = [], modified = t\<rparr>)"

definition example_client ::
  "((string \<times> string) \<times> stored_object) list \<Rightarrow> go_error option list \<Rightarrow> minio_Client" where
  "example_client objs fs =
     \<lparr>objects = objs, faults = fs, server_time = 0, presigner = example_presigner\<rparr>"

definition example_filter :: ArtifactFilter where
  "example_filter = \<lparr>Kind = ''gitrepository'', Namespace = ''default'', Name = ''app''\<rparr>"

definition example_three :: "((string \<times> string) \<times> stored_object) list" where
  "example_three =
     [example_object ''rev0.tar.gz'' 0, example_object ''rev1.tar.gz'' Second,
      example_object ''rev2.tar.gz'' (2 * Second)]"


definition example_listing :: "Artifact list" where
  "example_listing =
     map (\<lambda>(name, t). (Artifact_of_Path (''gitrepository/default/app/'' @ name))
            \<lparr>LastUpdateTime := t, Size := Some 5\<rparr>)
       [(''rev0.tar.gz'', 0), (''rev1.tar.gz'', Second), (''rev2.tar.gz'', 2 * Second)]"


text \<open>
  The order of the specification: \<open>LastUpdateTime\<close> descending, ties broken by
  \<open>Path\<close> ascending (Go compares strings bytewise, as the lexicographic order on
  \<open>string\<close> does).
\<close>

definition spec_listing_order :: "Artifact \<Rightarrow> Artifact \<Rightarrow> bool" where
  "spec_listing_order a b \<longleftrightarrow>
     LastUpdateTime b < LastUpdateTime a \<or>
     (LastUpdateTime a = LastUpdateTime b \<and> Path a \<le> Path b)"

definition example_ties :: "Artifact list" where
  "example_ties =
     [(Artifact_of_Path ''a'')\<lparr>LastUpdateTime := 1\<rparr>,
      (Artifact_of_Path ''b'')\<lparr>LastUpdateTime := 1\<rparr>,
      (Artifact_of_Path ''c'')\<lparr>LastUpdateTime := 2\<rparr>]"

text \<open>
  C3 as stated fails: three artifacts listed in ascending order of their paths,
  the first two with equal \<open>LastUpdateTime\<close>, come out with \<^verbatim>\<open>b\<close> before
  \<^verbatim>\<open>a\<close>.
\<close>

theorem sortArtifactsByTime_ties_counterexample:
  "map Path (sortArtifactsByTime example_ties) = [''c'', ''b'', ''a''] \<and>
   map LastUpdateTime (sortArtifactsByTime example_ties) = [2, 1, 1] \<and>
   \<not> sorted_wrt spec_listing_order (sortArtifactsByTime example_ties)"
  by code_simp

text \<open>
  C2 at three revisions uploaded at 0 s, 1 s and 2 s, collected at 3 s with a TTL
  of 1 s while the first deletion times out: \<^verbatim>\<open>rev1\<close> and \<^verbatim>\<open>rev0\<close> are marked,
  the deletion of \<^verbatim>\<open>rev1\<close> fails and \<^verbatim>\<open>rev0\<close> alone is returned.
\<close>

theorem GarbageCollect_retention_witness:
  "S3Storage_List example_storage (example_client example_three [None, Some (Failure ''timeout'')])
       example_filter =
     ((example_listing, None), example_client example_three [Some (Failure ''timeout'')]) \<and>
   fst (S3Storage_GarbageCollect (3 * Second) example_storage
          (example_client example_three [None, Some (Failure ''timeout'')]) example_filter
          \<lparr>TTL = Second, MaxRecords = 2\<rparr>) =
     ([''gitrepository/default/app/rev0.tar.gz''], None) \<and>
   map fst (objects (snd (S3Storage_GarbageCollect (3 * Second) example_storage
          (example_client example_three [None, Some (Failure ''timeout'')]) example_filter
          \<lparr>TTL = Second, MaxRecords = 2\<rparr>))) =
     [(''artifacts'', ''flux/gitrepository/default/app/rev1.tar.gz''),
      (''artifacts'', ''flux/gitrepository/default/app/rev2.tar.gz'')]"
proof -
  let ?c = "example_client example_three [None, Some (Failure ''timeout'')]"
  let ?c1 = "example_client example_three [Some (Failure ''timeout'')]"
  let ?policy = "\<lparr>TTL = Second, MaxRecords = 2\<rparr>"
  let ?marked = "spec_marked (3 * Second) ?policy (sortArtifactsByTime example_listing)"
  have list: "S3Storage_List example_storage ?c example_filter = ((example_listing, None), ?c1)"
    by (simp add: S3Storage_List_def ListObjects_def next_fault_def List_prefix_def
        example_storage_def example_client_def example_filter_def example_three_def
        example_object_def example_listing_def Artifact_of_Path_def HasPrefix_def
        HasSuffix_def TrimPrefix_def)
  have marked: "?marked =
      [''gitrepository/default/app/rev1.tar.gz'', ''gitrepository/default/app/rev0.tar.gz'']"
    by code_simp
  have outcomes: "fst (delete_each example_storage ?c1
      [''gitrepository/default/app/rev1.tar.gz'', ''gitrepository/default/app/rev0.tar.gz'']) =
      [Some (Wrapped ''failed to delete object from S3'' (Failure ''timeout'')), None]"
    by code_simp
  have left: "map fst (objects (snd (delete_each example_storage ?c1
      [''gitrepository/default/app/rev1.tar.gz'', ''gitrepository/default/app/rev0.tar.gz'']))) =
     [(''artifacts'', ''flux/gitrepository/default/app/rev1.tar.gz''),
      (''artifacts'', ''flux/gitrepository/default/app/rev2.tar.gz'')]"
    by code_simp
  note gc = GarbageCollect_retention[OF list, of "3 * Second" ?policy,
      THEN conjunct2, THEN conjunct2, THEN conjunct2, THEN conjunct1]
  show ?thesis
    unfolding gc marked outcomes using list left by (simp del: delete_each.simps)
qed




subsection \<open>Backend contract\<close>

text \<open>
  The next request reaches the service (the next system call sees the files):
  the environment has no failure in store for it.
\<close>

definition reaches_service :: "minio_Client \<Rightarrow> bool" where
  "reaches_service c \<longleftrightarrow> (case faults c of [] \<Rightarrow> True | f # fs \<Rightarrow> f = None)"

definition sees_files :: "filesystem \<Rightarrow> bool" where
  "sees_files fsys \<longleftrightarrow> (case os_faults fsys of [] \<Rightarrow> True | f # fs \<Rightarrow> f = None)"

lemma next_fault_reaches: "reaches_service c \<Longrightarrow> fst (next_fault c) = None"
  by (auto simp: reaches_service_def next_fault_def split: list.splits)

lemma os_next_fault_sees: "sees_files fsys \<Longrightarrow> fst (os_next_fault fsys) = None"
  by (auto simp: sees_files_def os_next_fault_def split: list.splits)

lemma files_os_next_fault: "files (snd (os_next_fault fsys)) = files fsys"
  by (simp add: os_next_fault_def split: list.splits)

lemma NoSuchKey_iff: "ToErrorResponse_Code e = ''NoSuchKey'' \<longleftrightarrow> e = ErrorResponse ''NoSuchKey''"
  by (cases e) simp_all

text \<open>
  C7. On a stat that the backend answers with the error response \<^verbatim>\<open>NoSuchKey\<close>,
  \<^verbatim>\<open>S3Storage.Exists\<close> returns \<^verbatim>\<open>(false, nil)\<close>; on every other stat failure it
  returns that failure, wrapped, as an error; on a stat that succeeds it returns
  \<^verbatim>\<open>(true, nil)\<close>.
\<close>

theorem Exists_distinguishes_NoSuchKey:
  "(StatObject c (bucket s) (artifactKey s a) = (Some (ErrorResponse ''NoSuchKey''), c')
      \<longrightarrow> S3Storage_Exists s c a = ((False, None), c')) \<and>
   (StatObject c (bucket s) (artifactKey s a) = (Some e, c') \<and> e \<noteq> ErrorResponse ''NoSuchKey''
      \<longrightarrow> S3Storage_Exists s c a =
            ((False, Some (Wrapped ''failed to check object existence'' e)), c')) \<and>
   (StatObject c (bucket s) (artifactKey s a) = (None, c')
      \<longrightarrow> S3Storage_Exists s c a = ((True, None), c'))"
  by (simp add: S3Storage_Exists_def Let_def NoSuchKey_iff)

lemma Exists_present:
  assumes "reaches_service c" and "map_of (objects c) (bucket s, artifactKey s a) = Some obj"
  shows "fst (S3Storage_Exists s c a) = (True, None)"
  using assms next_fault_reaches[OF assms(1)] objects_next_fault[of c]
  by (simp add: S3Storage_Exists_def StatObject_def Let_def split_beta
           split: prod.splits option.splits)

lemma Exists_absent:
  assumes "reaches_service c" and "map_of (objects c) (bucket s, artifactKey s a) = None"
  shows "fst (S3Storage_Exists s c a) = (False, None)"
  using assms next_fault_reaches[OF assms(1)] objects_next_fault[of c]
  by (simp add: S3Storage_Exists_def StatObject_def Let_def split_beta
           split: prod.splits option.splits)

lemma Store_success:
  assumes "S3Storage_Store Canonical now s c a (Reader B rerr) = ((None, a'), c')"
  shows "rerr = None"
    and "a' = a\<lparr>Digest := Digest_String Canonical B, LastUpdateTime := now,
                 Size := Some (int (length B))\<rparr>"
    and "map_option data (map_of (objects c') (bucket s, artifactKey s a)) = Some B"
    and "faults c' = tl (faults c)"
  using assms objects_next_fault[of c] faults_next_fault[of c]
  by (auto simp: S3Storage_Store_def PutObject_def Let_def update_conv'
           split: option.splits prod.splits)


lemma Delete_absent_success:
  assumes "reaches_service c"
  shows "fst (S3Storage_Delete s c a) = None"
  using next_fault_reaches[OF assms]
  by (simp add: S3Storage_Delete_def RemoveObject_def Let_def split_beta
           split: prod.splits option.splits)

lemma Delete_success_map_of:
  "fst (S3Storage_Delete s c a) = None \<Longrightarrow>
     map_of (objects (snd (S3Storage_Delete s c a))) (bucket s, artifactKey s a) = None"
  by (auto simp: S3Storage_Delete_def RemoveObject_def Let_def delete_conv'
           split: prod.splits option.splits)

lemma FS_Delete_absent:
  assumes "sees_files fsys" and "map_of (files fsys) (LocalPath st a) = None"
  shows "fst (FilesystemStorage_Delete st fsys a) = None"
    and "files (snd (FilesystemStorage_Delete st fsys a)) = files fsys"
  using assms os_next_fault_sees[OF assms(1)] files_os_next_fault[of fsys]
  by (auto simp: FilesystemStorage_Delete_def Remove_def os_Remove_def Let_def
           split: prod.splits option.splits)

lemma FS_Delete_success_map_of:
  "fst (FilesystemStorage_Delete st fsys a) = None \<Longrightarrow>
     map_of (files (snd (FilesystemStorage_Delete st fsys a))) (LocalPath st a) = None"
  by (auto simp: FilesystemStorage_Delete_def Remove_def os_Remove_def Let_def delete_conv'
           split: prod.splits option.splits if_splits)

lemma FS_Exists_absent:
  "map_of (files fsys) (LocalPath st a) = None \<Longrightarrow>
     fst (FilesystemStorage_Exists st fsys a) = (False, None)"
  using files_os_next_fault[of fsys]
  by (auto simp: FilesystemStorage_Exists_def ArtifactExist_def os_Lstat_def Let_def
           split: prod.splits option.splits)

lemma FS_Delete_no_faults:
  "os_faults fsys = [] \<Longrightarrow>
     fst (FilesystemStorage_Delete st fsys a) = None \<and>
     os_faults (snd (FilesystemStorage_Delete st fsys a)) = []"
  by (auto simp: FilesystemStorage_Delete_def Remove_def os_Remove_def os_next_fault_def Let_def
           split: prod.splits option.splits)

text \<open>
  C9. For the filesystem backend and for the object store: deleting an artifact
  that does not exist succeeds when the request is answered; after a \<^verbatim>\<open>Delete\<close>
  that returned no error the artifact is gone and \<^verbatim>\<open>Exists\<close> reports false; and
  two consecutive \<^verbatim>\<open>Delete\<close> calls both succeed when no request fails.
\<close>

theorem Delete_idempotent:
  "(sees_files fsys \<and> map_of (files fsys) (LocalPath st a) = None
      \<longrightarrow> fst (FilesystemStorage_Delete st fsys a) = None \<and>
          files (snd (FilesystemStorage_Delete st fsys a)) = files fsys) \<and>
   (fst (FilesystemStorage_Delete st fsys a) = None
      \<longrightarrow> map_of (files (snd (FilesystemStorage_Delete st fsys a))) (LocalPath st a) = None \<and>
          fst (FilesystemStorage_Exists st (snd (FilesystemStorage_Delete st fsys a)) a)
            = (False, None)) \<and>
   (os_faults fsys = []
      \<longrightarrow> fst (FilesystemStorage_Delete st fsys a) = None \<and>
          fst (FilesystemStorage_Delete st (snd (FilesystemStorage_Delete st fsys a)) a) = None) \<and>
   (reaches_service c \<and> map_of (objects c) (bucket s, artifactKey s b) = None
      \<longrightarrow> fst (S3Storage_Delete s c b) = None) \<and>
   (fst (S3Storage_Delete s c b) = None
      \<longrightarrow> map_of (objects (snd (S3Storage_Delete s c b))) (bucket s, artifactKey s b) = None \<and>
          (reaches_service (snd (S3Storage_Delete s c b))
             \<longrightarrow> fst (S3Storage_Exists s (snd (S3Storage_Delete s c b)) b) = (False, None))) \<and>
   (faults c = []
      \<longrightarrow> fst (S3Storage_Delete s c b) = None \<and>
          fst (S3Storage_Delete s (snd (S3Storage_Delete s c b)) b) = None)"
proof -
  have fs2: "fst (FilesystemStorage_Exists st (snd (FilesystemStorage_Delete st fsys a)) a)
      = (False, None)" if "fst (FilesystemStorage_Delete st fsys a) = None"
    using FS_Delete_success_map_of[OF that] by (rule FS_Exists_absent)
  have fs3: "fst (FilesystemStorage_Delete st (snd (FilesystemStorage_Delete st fsys a)) a) = None"
    if "os_faults fsys = []"
    using FS_Delete_no_faults[OF that, of st a] FS_Delete_no_faults by blast
  have s2: "fst (S3Storage_Exists s (snd (S3Storage_Delete s c b)) b) = (False, None)"
    if "fst (S3Storage_Delete s c b) = None" "reaches_service (snd (S3Storage_Delete s c b))"
    using that(2) Delete_success_map_of[OF that(1)] by (rule Exists_absent)
  have s3: "fst (S3Storage_Delete s (snd (S3Storage_Delete s c b)) b) = None"
    if "faults c = []"
    using Delete_no_faults[OF that, of s b] Delete_no_faults by blast
  show ?thesis
    using FS_Delete_absent[of fsys st a] FS_Delete_success_map_of[of st fsys a] fs2 fs3
      FS_Delete_no_faults[of fsys st a] Delete_absent_success[of c s b]
      Delete_success_map_of[of s c b] s2 s3 Delete_no_faults[of c s b]
    by blast
qed

text \<open>
  C6. When \<^verbatim>\<open>S3Storage.Store\<close> returns no error on a stream that delivers the bytes
  \<open>B\<close>, the descriptor's \<open>Digest\<close> is \<^verbatim>\<open><algo>:<hex>\<close> of the configured algorithm
  over \<open>B\<close>, its \<open>Size\<close> is the length of \<open>B\<close>, the store holds \<open>B\<close> under the
  artifact's key, and \<^verbatim>\<open>Exists\<close> is true as soon as its request is answered.
\<close>

theorem Store_success_postcondition:
  assumes "S3Storage_Store Canonical now s c a (Reader B rerr) = ((None, a'), c')"
  shows "Digest a' = algo_name Canonical @ '':'' @ hex_encode (algo_hash Canonical B) \<and>
         Size a' = Some (int (length B)) \<and>
         map_option data (map_of (objects c') (bucket s, artifactKey s a')) = Some B \<and>
         (reaches_service c' \<longrightarrow> fst (S3Storage_Exists s c' a') = (True, None))"
proof -
  note facts = Store_success[OF assms]
  have key: "artifactKey s a' = artifactKey s a"
    by (simp add: facts(2) artifactKey_def)
  have stored: "map_option data (map_of (objects c') (bucket s, artifactKey s a')) = Some B"
    using facts(3) by (simp add: key)
  then obtain obj where obj: "map_of (objects c') (bucket s, artifactKey s a') = Some obj"
    by auto
  have "fst (S3Storage_Exists s c' a') = (True, None)" if "reaches_service c'"
    using that obj by (rule Exists_present)
  then show ?thesis
    using stored by (simp add: facts(2) Digest_String_def)
qed

text \<open>
  C10. When \<^verbatim>\<open>S3Storage.Store\<close> returns an error, whether the stream or the upload
  failed, the descriptor is the one passed in: \<open>Digest\<close>, \<open>Size\<close> and
  \<open>LastUpdateTime\<close> are unchanged.
\<close>

theorem Store_failure_leaves_descriptor:
  "fst (fst (S3Storage_Store Canonical now s c a rd)) \<noteq> None \<Longrightarrow>
     snd (fst (S3Storage_Store Canonical now s c a rd)) = a"
  by (cases rd) (auto simp: S3Storage_Store_def Let_def split: option.splits prod.splits)


subsection \<open>Responses of the artifact server\<close>

lemma Path_Artifact_of_Path: "Path (Artifact_of_Path path) = path"
  by (simp add: Artifact_of_Path_def)

lemma status_http_Error [simp]:
  "response_status (http_Error new_ResponseWriter msg code) = code"
  by (simp add: http_Error_def Header_Set_def WriteHeader_def Write_def response_status_def
      new_ResponseWriter_def Let_def)

lemma status_http_NotFound [simp]:
  "response_status (http_NotFound new_ResponseWriter) = StatusNotFound"
  by (simp add: http_NotFound_def)

lemma http_Redirect_GET:
  "Method r = ''GET'' \<Longrightarrow>
     response_status (http_Redirect new_ResponseWriter r url code) = code \<and>
     Header_Get (http_Redirect new_ResponseWriter r url code) ''Location'' = url"
  by (simp add: http_Redirect_def Header_Set_def Header_Get_def WriteHeader_def Write_def
      response_status_def new_ResponseWriter_def Let_def)

lemma head_response:
  "response_status (WriteHeader (Header_Set new_ResponseWriter ''Content-Type'' ''application/gzip'') StatusOK) = StatusOK \<and>
   Header_Get (WriteHeader (Header_Set new_ResponseWriter ''Content-Type'' ''application/gzip'') StatusOK) ''Content-Type'' = ''application/gzip'' \<and>
   written (WriteHeader (Header_Set new_ResponseWriter ''Content-Type'' ''application/gzip'') StatusOK) = []"
  by (simp add: Header_Set_def Header_Get_def WriteHeader_def response_status_def
      new_ResponseWriter_def)

lemma stream_response:
  fixes content :: bytes and rerr :: "go_error option"
  defines "w \<equiv> snd (io_Copy (Header_Set (Header_Set new_ResponseWriter ''Content-Type'' ''application/gzip'')
      ''Cache-Control'' ''no-cache, no-store, must-revalidate'') (Reader content rerr))"
  shows "response_status w = StatusOK \<and> written w = content \<and>
     Header_Get w ''Content-Type'' = ''application/gzip'' \<and>
     Header_Get w ''Cache-Control'' = ''no-cache, no-store, must-revalidate''"
  by (simp add: w_def io_Copy_def Header_Set_def Header_Get_def WriteHeader_def Write_def
      response_status_def new_ResponseWriter_def Let_def StatusOK_def)

text \<open>
  C4, amended. For every request to \<^verbatim>\<open>serveArtifact\<close>: a method other than GET or
  HEAD yields 405; an empty path yields 400; otherwise \<^verbatim>\<open>Exists\<close> is consulted, an
  error yields 500 and a false result 404; a HEAD on an existing artifact yields
  200 with \<^verbatim>\<open>Content-Type: application/gzip\<close> and an empty body; a GET on an
  existing artifact yields, on the object store, 307 to the URL that \<^verbatim>\<open>GetURL\<close>
  returns, or 500 when \<^verbatim>\<open>GetURL\<close> fails, and on any other backend 200 with the
  streamed body, or 500 when \<^verbatim>\<open>Retrieve\<close> fails.
\<close>

theorem serveArtifact_responses:
  fixes provider :: "'p Interface" and p :: 'p and r :: Request
  defines "w \<equiv> fst (serveArtifact provider p new_ResponseWriter r)"
  defines "artifact \<equiv> Artifact_of_Path (TrimPrefix (URL_Path r) ''/'')"
  defines "ex \<equiv> fst (Exists provider p artifact)"
  defines "p1 \<equiv> snd (Exists provider p artifact)"
  shows
   "(Method r \<noteq> ''GET'' \<and> Method r \<noteq> ''HEAD''
       \<longrightarrow> response_status w = StatusMethodNotAllowed) \<and>
    ((Method r = ''GET'' \<or> Method r = ''HEAD'') \<and> Path artifact = []
       \<longrightarrow> response_status w = StatusBadRequest) \<and>
    ((Method r = ''GET'' \<or> Method r = ''HEAD'') \<and> Path artifact \<noteq> [] \<longrightarrow>
       (snd ex \<noteq> None \<longrightarrow> response_status w = StatusInternalServerError) \<and>
       (ex = (False, None) \<longrightarrow> response_status w = StatusNotFound) \<and>
       (ex = (True, None) \<and> Method r = ''HEAD'' \<longrightarrow>
          response_status w = StatusOK \<and>
          Header_Get w ''Content-Type'' = ''application/gzip'' \<and> written w = []) \<and>
       (ex = (True, None) \<and> Method r = ''GET'' \<and> isS3Storage provider \<longrightarrow>
          (\<forall>url. fst (GetURL provider p1 artifact) = (url, None) \<longrightarrow>
             response_status w = StatusTemporaryRedirect \<and> Header_Get w ''Location'' = url) \<and>
          (snd (fst (GetURL provider p1 artifact)) \<noteq> None \<longrightarrow>
             response_status w = StatusInternalServerError)) \<and>
       (ex = (True, None) \<and> Method r = ''GET'' \<and> \<not> isS3Storage provider \<longrightarrow>
          (\<forall>content rerr. fst (Retrieve provider p1 artifact) = (Reader content rerr, None) \<longrightarrow>
             response_status w = StatusOK \<and> written w = content \<and>
             Header_Get w ''Content-Type'' = ''application/gzip'' \<and>
             Header_Get w ''Cache-Control'' = ''no-cache, no-store, must-revalidate'') \<and>
          (snd (fst (Retrieve provider p1 artifact)) \<noteq> None \<longrightarrow>
             response_status w = StatusInternalServerError)))"
proof -
  note defs = w_def artifact_def ex_def p1_def
  note unfold = serveArtifact_def Let_def split_beta Path_Artifact_of_Path
  have m: "response_status w = StatusMethodNotAllowed"
    if "Method r \<noteq> ''GET''" "Method r \<noteq> ''HEAD''"
    using that unfolding defs by (simp add: unfold)
  have b: "response_status w = StatusBadRequest"
    if "Method r = ''GET'' \<or> Method r = ''HEAD''" "Path artifact = []"
    using that unfolding defs by (auto simp: unfold)
  have e: "response_status w = StatusInternalServerError"
    if "Method r = ''GET'' \<or> Method r = ''HEAD''" "Path artifact \<noteq> []" "snd ex \<noteq> None"
    using that unfolding defs by (auto simp: unfold)
  have n: "response_status w = StatusNotFound"
    if "Method r = ''GET'' \<or> Method r = ''HEAD''" "Path artifact \<noteq> []" "ex = (False, None)"
    using that unfolding defs by (auto simp: unfold)
  have h: "response_status w = StatusOK \<and>
          Header_Get w ''Content-Type'' = ''application/gzip'' \<and> written w = []"
    if "Path artifact \<noteq> []" "ex = (True, None)" "Method r = ''HEAD''"
    using that head_response unfolding defs by (simp add: unfold)
  have g1: "response_status w = StatusTemporaryRedirect \<and> Header_Get w ''Location'' = url"
    if "Path artifact \<noteq> []" "ex = (True, None)" "Method r = ''GET''" "isS3Storage provider"
      "fst (GetURL provider p1 artifact) = (url, None)" for url
    using that http_Redirect_GET[of r url StatusTemporaryRedirect]
    unfolding defs by (simp add: unfold)
  have g2: "response_status w = StatusInternalServerError"
    if "Path artifact \<noteq> []" "ex = (True, None)" "Method r = ''GET''" "isS3Storage provider"
      "snd (fst (GetURL provider p1 artifact)) \<noteq> None"
    using that unfolding defs by (auto simp: unfold)
  have r1: "response_status w = StatusOK \<and> written w = content \<and>
             Header_Get w ''Content-Type'' = ''application/gzip'' \<and>
             Header_Get w ''Cache-Control'' = ''no-cache, no-store, must-revalidate''"
    if "Path artifact \<noteq> []" "ex = (True, None)" "Method r = ''GET''" "\<not> isS3Storage provider"
      "fst (Retrieve provider p1 artifact) = (Reader content rerr, None)" for content rerr
    using that stream_response[of content rerr]
    unfolding defs by (simp add: unfold)
  have r2: "response_status w = StatusInternalServerError"
    if "Path artifact \<noteq> []" "ex = (True, None)" "Method r = ''GET''" "\<not> isS3Storage provider"
      "snd (fst (Retrieve provider p1 artifact)) \<noteq> None"
    using that unfolding defs by (auto simp: unfold)
  show ?thesis
    using m b e n h g1 g2 r1 r2 by blast
qed


lemma presigner_Exists: "presigner (snd (S3Storage_Exists s c a)) = presigner c"
  by (simp add: S3Storage_Exists_def StatObject_def next_fault_def Let_def split_beta
      split: list.splits option.splits)

lemma urlExpiration_NewS3Storage:
  "NewS3Storage url_Parse minio_New BucketExists cfg = Inr (s, c) \<Longrightarrow>
     urlExpiration s = (if URLExpiration cfg = 0 then 15 * Minute else URLExpiration cfg)"
  by (auto simp: NewS3Storage_def Let_def split_beta
           split: sum.splits option.splits prod.splits if_splits)

text \<open>
  C5, amended. \<^verbatim>\<open>NewS3Storage\<close> sets the URL expiration to the configured one, and
  to 15 minutes when the configuration leaves it zero; \<^verbatim>\<open>GetURL\<close> asks the client
  for a presigned GET URL of the artifact's key with that expiration and returns
  it; a GET for an existing artifact on the object store responds 307 with that
  URL as \<^verbatim>\<open>Location\<close> when the client produces one, and 500 when presigning
  fails.
\<close>

theorem GET_redirects_to_presigned_URL:
  fixes s :: S3Storage and c :: minio_Client and r :: Request
  defines "artifact \<equiv> Artifact_of_Path (TrimPrefix (URL_Path r) ''/'')"
  defines "w \<equiv> fst (serveArtifact (S3Storage_Interface s) c new_ResponseWriter r)"
  defines "presigned \<equiv> PresignedGetObject c (bucket s) (artifactKey s artifact) (urlExpiration s)"
  shows
   "(NewS3Storage url_Parse minio_New BucketExists cfg = Inr (s', c') \<longrightarrow>
       urlExpiration s' = (if URLExpiration cfg = 0 then 15 * Minute else URLExpiration cfg)) \<and>
    fst (S3Storage_GetURL s c artifact) =
      (case presigned of
         Inl e \<Rightarrow> ([], Some (Wrapped ''failed to create pre-signed URL'' e))
       | Inr url \<Rightarrow> (url, None)) \<and>
    (Method r = ''GET'' \<and> Path artifact \<noteq> [] \<and>
     fst (S3Storage_Exists s c artifact) = (True, None) \<longrightarrow>
       (\<forall>url. presigned = Inr url \<longrightarrow>
          response_status w = StatusTemporaryRedirect \<and> Header_Get w ''Location'' = url) \<and>
       (\<forall>e. presigned = Inl e \<longrightarrow> response_status w = StatusInternalServerError))"
proof -
  note defs = w_def artifact_def presigned_def
  note unfold = serveArtifact_def S3Storage_Interface_def S3Storage_GetURL_def
    PresignedGetObject_def presigner_Exists Let_def split_beta Path_Artifact_of_Path
  have geturl: "fst (S3Storage_GetURL s c artifact) =
      (case presigned of
         Inl e \<Rightarrow> ([], Some (Wrapped ''failed to create pre-signed URL'' e))
       | Inr url \<Rightarrow> (url, None))"
    unfolding defs by (simp add: S3Storage_GetURL_def Let_def split: sum.splits)
  have ok: "response_status w = StatusTemporaryRedirect \<and> Header_Get w ''Location'' = url"
    if "Method r = ''GET''" "Path artifact \<noteq> []"
      "fst (S3Storage_Exists s c artifact) = (True, None)" "presigned = Inr url" for url
    using that http_Redirect_GET[of r url StatusTemporaryRedirect]
    unfolding defs by (simp add: unfold)
  have bad: "response_status w = StatusInternalServerError"
    if "Method r = ''GET''" "Path artifact \<noteq> []"
      "fst (S3Storage_Exists s c artifact) = (True, None)" "presigned = Inl e" for e
    using that unfolding defs by (simp add: unfold)
  show ?thesis
    using urlExpiration_NewS3Storage[of url_Parse minio_New BucketExists cfg s' c'] geturl ok bad
    by blast
qed


subsection \<open>Concrete runs\<close>

text \<open>
  A toy digest algorithm (the sum of the bytes modulo 256), a descriptor, a local
  store under \<^verbatim>\<open>/data\<close> and the configuration of the bucket above.
\<close>

definition example_algorithm :: Algorithm where
  "example_algorithm =
     \<lparr>algo_name = ''sum8'',
      algo_hash = (\<lambda>bs. [char_of (sum_list (map of_char bs) :: nat)])\<rparr>"

definition example_artifact :: Artifact where
  "example_artifact =
     \<lparr>Path = ''gitrepository/default/app/rev1.tar.gz'', URL = [], Revision = ''rev1'',
      Digest = ''sum8:00'', LastUpdateTime = 5, Size = Some 1\<rparr>"

definition example_fs_storage :: Storage where
  "example_fs_storage = \<lparr>BasePath = ''/data'', Hostname' = ''demo.local''\<rparr>"

definition example_files :: "string option list \<Rightarrow> filesystem" where
  "example_files fs =
     \<lparr>files = [(''/data/gitrepository/default/app/rev1.tar.gz'', ''hello'')], os_faults = fs\<rparr>"

definition example_request :: "string \<Rightarrow> string \<Rightarrow> Request" where
  "example_request m name = \<lparr>Method = m, URL_Path = ''/'' @ name\<rparr>"

definition example_config :: S3Config where
  "example_config =
     \<lparr>Bucket = ''artifacts'', Prefix = ''flux/'', Region = ''us-east-1'', Endpoint = [],
      Hostname = ''demo.local'', URLExpiration = 0, ForcePathStyle = False\<rparr>"

text \<open>C7 at a missing key, at a stat denied by the service, and at a stored key.\<close>

theorem Exists_distinguishes_NoSuchKey_witness:
  "fst (S3Storage_Exists example_storage (example_client example_three [])
          (Artifact_of_Path ''gitrepository/default/app/rev9.tar.gz'')) = (False, None) \<and>
   fst (S3Storage_Exists example_storage
          (example_client example_three [Some (ErrorResponse ''AccessDenied'')])
          (Artifact_of_Path ''gitrepository/default/app/rev1.tar.gz'')) =
     (False, Some (Wrapped ''failed to check object existence'' (ErrorResponse ''AccessDenied''))) \<and>
   fst (S3Storage_Exists example_storage (example_client example_three [])
          (Artifact_of_Path ''gitrepository/default/app/rev1.tar.gz'')) = (True, None)"
proof -
  let ?c = "example_client example_three []"
  let ?d = "example_client example_three [Some (ErrorResponse ''AccessDenied'')]"
  let ?missing = "Artifact_of_Path ''gitrepository/default/app/rev9.tar.gz''"
  let ?present = "Artifact_of_Path ''gitrepository/default/app/rev1.tar.gz''"
  note defs = StatObject_def next_fault_def example_client_def example_storage_def
    example_three_def example_object_def artifactKey_def Artifact_of_Path_def
  have 1: "StatObject ?c (bucket example_storage) (artifactKey example_storage ?missing) =
      (Some (ErrorResponse ''NoSuchKey''), ?c)"
    by (simp add: defs)
  have 2: "StatObject ?d (bucket example_storage) (artifactKey example_storage ?present) =
      (Some (ErrorResponse ''AccessDenied''), ?c) \<and>
      ErrorResponse ''AccessDenied'' \<noteq> ErrorResponse ''NoSuchKey''"
    by (simp add: defs)
  have 3: "StatObject ?c (bucket example_storage) (artifactKey example_storage ?present) =
      (None, ?c)"
    by (simp add: defs)
  show ?thesis
    using Exists_distinguishes_NoSuchKey[of ?c example_storage ?missing ?c] 1
      Exists_distinguishes_NoSuchKey[of ?d example_storage ?present ?c "ErrorResponse ''AccessDenied''"] 2
      Exists_distinguishes_NoSuchKey[of ?c example_storage ?present ?c] 3
    by simp
qed


text \<open>
  C4, amended, at a POST, an empty path, a missing artifact, a stat that times
  out, a HEAD and a GET of a stored file, and a GET on the object store.
\<close>

theorem serveArtifact_responses_witness:
  "response_status (fst (serveArtifact (FilesystemStorage_Interface example_fs_storage)
      (example_files []) new_ResponseWriter
      (example_request ''POST'' ''gitrepository/default/app/rev1.tar.gz''))) = 405 \<and>
   response_status (fst (serveArtifact (FilesystemStorage_Interface example_fs_storage)
      (example_files []) new_ResponseWriter (example_request ''GET'' []))) = 400 \<and>
   response_status (fst (serveArtifact (FilesystemStorage_Interface example_fs_storage)
      (example_files []) new_ResponseWriter
      (example_request ''GET'' ''gitrepository/default/app/missing.tar.gz''))) = 404 \<and>
   response_status (fst (serveArtifact (S3Storage_Interface example_storage)
      (example_client example_three [Some (Failure ''timeout'')]) new_ResponseWriter
      (example_request ''GET'' ''gitrepository/default/app/rev1.tar.gz''))) = 500 \<and>
   response_status (fst (serveArtifact (FilesystemStorage_Interface example_fs_storage)
      (example_files []) new_ResponseWriter
      (example_request ''HEAD'' ''gitrepository/default/app/rev1.tar.gz''))) = 200 \<and>
   written (fst (serveArtifact (FilesystemStorage_Interface example_fs_storage)
      (example_files []) new_ResponseWriter
      (example_request ''HEAD'' ''gitrepository/default/app/rev1.tar.gz''))) = [] \<and>
   response_status (fst (serveArtifact (FilesystemStorage_Interface example_fs_storage)
      (example_files []) new_ResponseWriter
      (example_request ''GET'' ''gitrepository/default/app/rev1.tar.gz''))) = 200 \<and>
   written (fst (serveArtifact (FilesystemStorage_Interface example_fs_storage)
      (example_files []) new_ResponseWriter
      (example_request ''GET'' ''gitrepository/default/app/rev1.tar.gz''))) = ''hello'' \<and>
   response_status (fst (serveArtifact (S3Storage_Interface example_storage)
      (example_client example_three []) new_ResponseWriter
      (example_request ''GET'' ''gitrepository/default/app/rev1.tar.gz''))) = 307"
proof -
  let ?F = "FilesystemStorage_Interface example_fs_storage"
  let ?S = "S3Storage_Interface example_storage"
  let ?fs = "example_files []"
  let ?c = "example_client example_three []"
  let ?d = "example_client example_three [Some (Failure ''timeout'')]"
  let ?post = "example_request ''POST'' ''gitrepository/default/app/rev1.tar.gz''"
  let ?root = "example_request ''GET'' []"
  let ?miss = "example_request ''GET'' ''gitrepository/default/app/missing.tar.gz''"
  let ?head = "example_request ''HEAD'' ''gitrepository/default/app/rev1.tar.gz''"
  let ?get = "example_request ''GET'' ''gitrepository/default/app/rev1.tar.gz''"
  let ?a = "Artifact_of_Path (TrimPrefix (URL_Path ?get) ''/'')"
  have codes: "StatusMethodNotAllowed = 405" "StatusBadRequest = 400" "StatusNotFound = 404"
    "StatusInternalServerError = 500" "StatusOK = 200" "StatusTemporaryRedirect = 307"
    by (simp_all add: StatusMethodNotAllowed_def StatusBadRequest_def StatusNotFound_def
        StatusInternalServerError_def StatusOK_def StatusTemporaryRedirect_def)
  have post: "Method ?post \<noteq> ''GET'' \<and> Method ?post \<noteq> ''HEAD''"
    by code_simp
  have root: "(Method ?root = ''GET'' \<or> Method ?root = ''HEAD'') \<and>
      Path (Artifact_of_Path (TrimPrefix (URL_Path ?root) ''/'')) = []"
    by code_simp
  have miss: "(Method ?miss = ''GET'' \<or> Method ?miss = ''HEAD'') \<and>
      Path (Artifact_of_Path (TrimPrefix (URL_Path ?miss) ''/'')) \<noteq> []"
    by code_simp
  have miss': "fst (Exists ?F ?fs (Artifact_of_Path (TrimPrefix (URL_Path ?miss) ''/''))) =
      (False, None)"
    by code_simp
  have head: "(Method ?head = ''GET'' \<or> Method ?head = ''HEAD'') \<and>
      Path (Artifact_of_Path (TrimPrefix (URL_Path ?head) ''/'')) \<noteq> []"
    by code_simp
  have head': "fst (Exists ?F ?fs (Artifact_of_Path (TrimPrefix (URL_Path ?head) ''/''))) =
      (True, None) \<and> Method ?head = ''HEAD''"
    by code_simp
  have get: "(Method ?get = ''GET'' \<or> Method ?get = ''HEAD'') \<and> Path ?a \<noteq> []"
    by code_simp
  have fault: "snd (fst (Exists ?S ?d ?a)) \<noteq> None"
    by code_simp
  have fget: "fst (Exists ?F ?fs ?a) = (True, None) \<and> Method ?get = ''GET'' \<and> \<not> isS3Storage ?F"
    by code_simp
  have fget': "fst (Retrieve ?F (snd (Exists ?F ?fs ?a)) ?a) = (Reader ''hello'' None, None)"
    by code_simp
  have s3: "fst (Exists ?S ?c ?a) = (True, None) \<and> Method ?get = ''GET'' \<and> isS3Storage ?S"
    by code_simp
  have s3': "fst (GetURL ?S (snd (Exists ?S ?c ?a)) ?a) =
        (''https://s3.example/artifacts/flux/gitrepository/default/app/rev1.tar.gz?X-Amz-Signature=0'',
         None)"
    by code_simp
  note 1 = serveArtifact_responses[of ?post ?F ?fs, THEN conjunct1, THEN mp, OF post]
  note 2 = serveArtifact_responses[of ?root ?F ?fs, THEN conjunct2, THEN conjunct1, THEN mp,
      OF root]
  note 3 = serveArtifact_responses[of ?miss ?F ?fs, THEN conjunct2, THEN conjunct2, THEN mp,
      OF miss, THEN conjunct2, THEN conjunct1, THEN mp, OF miss']
  note 4 = serveArtifact_responses[of ?get ?S ?d, THEN conjunct2, THEN conjunct2, THEN mp,
      OF get, THEN conjunct1, THEN mp, OF fault]
  note 5 = serveArtifact_responses[of ?head ?F ?fs, THEN conjunct2, THEN conjunct2, THEN mp,
      OF head, THEN conjunct2, THEN conjunct2, THEN conjunct1, THEN mp, OF head']
  note 6 = serveArtifact_responses[of ?get ?F ?fs, THEN conjunct2, THEN conjunct2, THEN mp,
      OF get, THEN conjunct2, THEN conjunct2, THEN conjunct2, THEN conjunct2, THEN mp, OF fget,
      THEN conjunct1, THEN spec, THEN spec, THEN mp, OF fget']
  note 7 = serveArtifact_responses[of ?get ?S ?c, THEN conjunct2, THEN conjunct2, THEN mp,
      OF get, THEN conjunct2, THEN conjunct2, THEN conjunct2, THEN conjunct1, THEN mp, OF s3,
      THEN conjunct1, THEN spec, THEN mp, OF s3']
  show ?thesis
    unfolding codes[symmetric]
    by (intro conjI 1 2 3 4 5[THEN conjunct1] 5[THEN conjunct2, THEN conjunct2]
        6[THEN conjunct1] 6[THEN conjunct2, THEN conjunct1] 7[THEN conjunct1])
qed

text \<open>
  C4 as stated fails: on the filesystem backend a GET of an artifact that exists,
  whose file cannot be opened, yields 500, neither 307 nor 200.
\<close>

theorem serveArtifact_responses_counterexample:
  "fst (Exists (FilesystemStorage_Interface example_fs_storage)
         (example_files [None, None, Some ''permission denied''])
         (Artifact_of_Path ''gitrepository/default/app/rev1.tar.gz'')) = (True, None) \<and>
   response_status (fst (serveArtifact (FilesystemStorage_Interface example_fs_storage)
      (example_files [None, None, Some ''permission denied'']) new_ResponseWriter
      (example_request ''GET'' ''gitrepository/default/app/rev1.tar.gz''))) = 500"
  by code_simp

text \<open>C6 at the upload of \<^verbatim>\<open>hello\<close> into the empty bucket.\<close>

theorem Store_success_postcondition_witness:
  "fst (fst (S3Storage_Store example_algorithm 7 example_storage (example_client [] [])
          example_artifact (Reader ''hello'' None))) = None \<and>
   Digest (snd (fst (S3Storage_Store example_algorithm 7 example_storage (example_client [] [])
          example_artifact (Reader ''hello'' None)))) = ''sum8:14'' \<and>
   Size (snd (fst (S3Storage_Store example_algorithm 7 example_storage (example_client [] [])
          example_artifact (Reader ''hello'' None)))) = Some 5 \<and>
   fst (S3Storage_Exists example_storage
          (snd (S3Storage_Store example_algorithm 7 example_storage (example_client [] [])
             example_artifact (Reader ''hello'' None)))
          (snd (fst (S3Storage_Store example_algorithm 7 example_storage (example_client [] [])
             example_artifact (Reader ''hello'' None))))) = (True, None)"
proof -
  let ?X = "S3Storage_Store example_algorithm 7 example_storage (example_client [] [])
          example_artifact (Reader ''hello'' None)"
  have ok: "fst (fst ?X) = None"
    by code_simp
  then have run: "?X = ((None, snd (fst ?X)), snd ?X)"
    by (simp add: prod_eq_iff)
  have reach: "reaches_service (snd ?X)"
    by code_simp
  have digest: "algo_name example_algorithm @ '':'' @
      hex_encode (algo_hash example_algorithm ''hello'') = ''sum8:14''"
    by code_simp
  have len: "Some (int (length ''hello'')) = Some 5"
    by simp
  note post = Store_success_postcondition[OF run]
  show ?thesis
    using ok post[THEN conjunct1] post[THEN conjunct2, THEN conjunct1]
      post[THEN conjunct2, THEN conjunct2, THEN conjunct2, THEN mp, OF reach]
    unfolding digest len by (intro conjI)
qed

text \<open>C10 at a stream that breaks after three bytes and at an upload that times out.\<close>

theorem Store_failure_leaves_descriptor_witness:
  "fst (fst (S3Storage_Store example_algorithm 7 example_storage (example_client [] [])
          example_artifact (Reader ''hel'' (Some (Failure ''unexpected EOF''))))) =
     Some (Wrapped ''failed to read content'' (Failure ''unexpected EOF'')) \<and>
   snd (fst (S3Storage_Store example_algorithm 7 example_storage (example_client [] [])
          example_artifact (Reader ''hel'' (Some (Failure ''unexpected EOF''))))) =
     example_artifact \<and>
   fst (fst (S3Storage_Store example_algorithm 7 example_storage
          (example_client [] [Some (Failure ''timeout'')])
          example_artifact (Reader ''hello'' None))) =
     Some (Wrapped ''failed to upload to S3'' (Failure ''timeout'')) \<and>
   snd (fst (S3Storage_Store example_algorithm 7 example_storage
          (example_client [] [Some (Failure ''timeout'')])
          example_artifact (Reader ''hello'' None))) = example_artifact"
proof -
  let ?X = "S3Storage_Store example_algorithm 7 example_storage (example_client [] [])
          example_artifact (Reader ''hel'' (Some (Failure ''unexpected EOF'')))"
  let ?Y = "S3Storage_Store example_algorithm 7 example_storage
          (example_client [] [Some (Failure ''timeout'')])
          example_artifact (Reader ''hello'' None)"
  have x: "fst (fst ?X) = Some (Wrapped ''failed to read content'' (Failure ''unexpected EOF''))"
    by code_simp
  have y: "fst (fst ?Y) = Some (Wrapped ''failed to upload to S3'' (Failure ''timeout''))"
    by code_simp
  have x': "fst (fst ?X) \<noteq> None"
    unfolding x by simp
  have y': "fst (fst ?Y) \<noteq> None"
    unfolding y by simp
  show ?thesis
    using x y Store_failure_leaves_descriptor[OF x'] Store_failure_leaves_descriptor[OF y']
    by (intro conjI)
qed

text \<open>
  C9 on both backends, at a revision that was never stored and at a stored one
  that is deleted twice.
\<close>

theorem Delete_idempotent_witness:
  "fst (FilesystemStorage_Delete example_fs_storage (example_files [])
          (Artifact_of_Path ''gitrepository/default/app/rev9.tar.gz'')) = None \<and>
   fst (FilesystemStorage_Delete example_fs_storage (example_files []) example_artifact) = None \<and>
   fst (FilesystemStorage_Exists example_fs_storage
          (snd (FilesystemStorage_Delete example_fs_storage (example_files []) example_artifact))
          example_artifact) = (False, None) \<and>
   fst (FilesystemStorage_Delete example_fs_storage
          (snd (FilesystemStorage_Delete example_fs_storage (example_files []) example_artifact))
          example_artifact) = None \<and>
   fst (S3Storage_Delete example_storage (example_client example_three [])
          (Artifact_of_Path ''gitrepository/default/app/rev9.tar.gz'')) = None \<and>
   fst (S3Storage_Delete example_storage (example_client example_three []) example_artifact)
     = None \<and>
   fst (S3Storage_Exists example_storage
          (snd (S3Storage_Delete example_storage (example_client example_three [])
             example_artifact))
          example_artifact) = (False, None) \<and>
   fst (S3Storage_Delete example_storage
          (snd (S3Storage_Delete example_storage (example_client example_three [])
             example_artifact))
          example_artifact) = None"
proof -
  let ?missing = "Artifact_of_Path ''gitrepository/default/app/rev9.tar.gz''"
  let ?fs = "example_files []"
  let ?c = "example_client example_three []"
  have f1: "sees_files ?fs \<and> map_of (files ?fs) (LocalPath example_fs_storage ?missing) = None"
    by code_simp
  have f3: "os_faults ?fs = []"
    by code_simp
  have s1: "reaches_service ?c \<and>
      map_of (objects ?c) (bucket example_storage, artifactKey example_storage ?missing) = None"
    by code_simp
  have s3: "faults ?c = []"
    by code_simp
  have s2: "reaches_service (snd (S3Storage_Delete example_storage ?c example_artifact))"
    by code_simp
  note absent = Delete_idempotent[of ?fs example_fs_storage ?missing ?c example_storage ?missing]
  note present = Delete_idempotent[of ?fs example_fs_storage example_artifact ?c example_storage
      example_artifact]
  note a1 = absent[THEN conjunct1, THEN mp, OF f1, THEN conjunct1]
  note a4 = absent[THEN conjunct2, THEN conjunct2, THEN conjunct2, THEN conjunct1, THEN mp, OF s1]
  note p3 = present[THEN conjunct2, THEN conjunct2, THEN conjunct1, THEN mp, OF f3]
  note p2 = present[THEN conjunct2, THEN conjunct1, THEN mp, OF p3[THEN conjunct1],
      THEN conjunct2]
  note p6 = present[THEN conjunct2, THEN conjunct2, THEN conjunct2, THEN conjunct2,
      THEN conjunct2, THEN mp, OF s3]
  note p5 = present[THEN conjunct2, THEN conjunct2, THEN conjunct2, THEN conjunct2,
      THEN conjunct1, THEN mp, OF p6[THEN conjunct1], THEN conjunct2, THEN mp, OF s2]
  show ?thesis
    by (intro conjI a1 p3[THEN conjunct1] p2 p3[THEN conjunct2] a4 p6[THEN conjunct1] p5
        p6[THEN conjunct2])
qed

text \<open>
  C5, amended, at the configuration that leaves the URL expiration unset and a
  GET of a stored revision.
\<close>

theorem GET_redirects_to_presigned_URL_witness:
  "map_sum id fst (NewS3Storage (\<lambda>endpoint. None)
       (\<lambda>endpoint secure region. Inr (example_client example_three []))
       (\<lambda>c b. (True, None)) example_config) = Inr example_storage \<and>
   urlExpiration example_storage = 15 * Minute \<and>
   fst (S3Storage_GetURL example_storage (example_client example_three [])
          (Artifact_of_Path ''gitrepository/default/app/rev1.tar.gz'')) =
     (''https://s3.example/artifacts/flux/gitrepository/default/app/rev1.tar.gz?X-Amz-Signature=0'',
      None) \<and>
   response_status (fst (serveArtifact (S3Storage_Interface example_storage)
      (example_client example_three []) new_ResponseWriter
      (example_request ''GET'' ''gitrepository/default/app/rev1.tar.gz''))) = 307 \<and>
   Header_Get (fst (serveArtifact (S3Storage_Interface example_storage)
      (example_client example_three []) new_ResponseWriter
      (example_request ''GET'' ''gitrepository/default/app/rev1.tar.gz''))) ''Location'' =
     ''https://s3.example/artifacts/flux/gitrepository/default/app/rev1.tar.gz?X-Amz-Signature=0''"
proof -
  let ?c = "example_client example_three []"
  let ?r = "example_request ''GET'' ''gitrepository/default/app/rev1.tar.gz''"
  let ?a = "Artifact_of_Path (TrimPrefix (URL_Path ?r) ''/'')"
  let ?url = "''https://s3.example/artifacts/flux/gitrepository/default/app/rev1.tar.gz?X-Amz-Signature=0''"
  let ?parse = "\<lambda>endpoint :: string. None :: (string \<times> string) option"
  let ?new = "\<lambda>(endpoint :: string) (secure :: bool) (region :: string).
      Inr ?c :: go_error + minio_Client"
  let ?be = "\<lambda>(c :: minio_Client) (b :: string). (True, None :: go_error option)"
  have cfg: "NewS3Storage ?parse ?new ?be example_config = Inr (example_storage, ?c)"
    by (simp add: NewS3Storage_def example_config_def example_storage_def TrimSuffix_def
        HasSuffix_def Let_def)
  have zero: "URLExpiration example_config = 0"
    by (simp add: example_config_def)
  have a: "?a = Artifact_of_Path ''gitrepository/default/app/rev1.tar.gz''"
    by code_simp
  have pre: "Method ?r = ''GET'' \<and> Path ?a \<noteq> [] \<and>
      fst (S3Storage_Exists example_storage ?c ?a) = (True, None)"
    by code_simp
  have presigned: "PresignedGetObject ?c (bucket example_storage)
      (artifactKey example_storage ?a) (urlExpiration example_storage) = Inr ?url"
    by code_simp
  note t = GET_redirects_to_presigned_URL[of ?parse ?new ?be example_config example_storage ?c
      example_storage ?c ?r]
  note t1 = t[THEN conjunct1, THEN mp, OF cfg]
  note t2 = t[THEN conjunct2, THEN conjunct1]
  note t3 = t[THEN conjunct2, THEN conjunct2, THEN mp, OF pre, THEN conjunct1, THEN spec,
      THEN mp, OF presigned]
  have codes: "StatusTemporaryRedirect = 307"
    by (simp add: StatusTemporaryRedirect_def)
  have e1: "map_sum id fst (NewS3Storage ?parse ?new ?be example_config) = Inr example_storage"
    unfolding cfg by simp
  have e2: "urlExpiration example_storage = 15 * Minute"
    using t1 unfolding zero by simp
  have e3: "fst (S3Storage_GetURL example_storage ?c ?a) = (?url, None)"
    using t2 unfolding presigned by simp
  show ?thesis
    using e1 e2 e3[unfolded a] t3[unfolded codes, THEN conjunct1] t3[THEN conjunct2]
    by (intro conjI)
qed

text \<open>
  A client of the same bucket that holds no credentials, as the one built from
  an environment without access keys: the MinIO client refuses to presign.
\<close>

definition anonymous_client ::
  "((string \<times> string) \<times> stored_object) list \<Rightarrow> go_error option list \<Rightarrow> minio_Client" where
  "anonymous_client objs fs =
     (example_client objs fs)
       \<lparr>presigner := (\<lambda>b k expires.
          Inl (Failure ''Presigned URLs cannot be generated with anonymous credentials.''))\<rparr>"

text \<open>
  C5 as stated fails: with the default URL expiration of 15 minutes and a client
  that cannot presign, a GET for an existing artifact on the object store
  responds 500, not 307.
\<close>

theorem GET_redirects_to_presigned_URL_counterexample:
  "fst (S3Storage_Exists example_storage (anonymous_client example_three [])
          (Artifact_of_Path ''gitrepository/default/app/rev1.tar.gz'')) = (True, None) \<and>
   urlExpiration example_storage = 15 * Minute \<and>
   response_status (fst (serveArtifact (S3Storage_Interface example_storage)
      (anonymous_client example_three []) new_ResponseWriter
      (example_request ''GET'' ''gitrepository/default/app/rev1.tar.gz''))) = 500"
  by code_simp

subsection \<open>Headers of the archive\<close>

text \<open>The headers written so far.\<close>

definition headers :: "tar_Writer \<Rightarrow> Header list" where
  "headers tw = map fst (entries tw)"

text \<open>The file infos of the regular files of a source directory.\<close>

fun regular_infos :: "fs_tree \<Rightarrow> FileInfo list" where
  "regular_infos (File info opened) = (if IsRegular info then [info] else [])"
| "regular_infos (Dir info err names) =
     (if IsRegular info then [info] else []) @ concat (map regular_infos names)"
| "regular_infos (Unreadable name err) = []"

text \<open>
  A header that carries mode bits, size, owner and group of the file info as
  they are, its modification time rounded to the second, and no device numbers.
\<close>

definition header_of :: "FileInfo \<Rightarrow> Header \<Rightarrow> bool" where
  "header_of info h \<longleftrightarrow>
     Typeflag h = Regular \<and> HeaderSize h = FileSize info \<and> Mode h = Perm info \<and>
     ModTime h = Round_Second (FileModTime info) \<and>
     Uid h = Owner_Uid info \<and> Gid h = Owner_Gid info \<and>
     Uname h = Owner_Uname info \<and> Gname h = Owner_Gname info \<and>
     Devmajor h = 0 \<and> Devminor h = 0"

lemma headers_tar_Write: "headers (snd (tar_Write tw b)) = headers tw"
proof (cases "rev (entries tw)")
  case Nil
  then show ?thesis
    by (simp add: tar_Write_def)
next
  case (Cons e es)
  then have "entries tw = rev es @ [e]"
    by (metis rev.simps(2) rev_rev_ident)
  with Cons show ?thesis
    by (cases e) (simp add: tar_Write_def headers_def Let_def)
qed

lemma headers_tar_Copy: "headers (snd (tar_Copy tw rd)) = headers tw"
  by (cases rd) (simp add: tar_Copy_def split_beta headers_tar_Write split: option.splits)

lemma headers_tar_WriteHeader:
  "set (headers (snd (tar_WriteHeader tw hdr))) \<subseteq>
     insert (hdr\<lparr>ModTime := Round_Second (ModTime hdr)\<rparr>) (set (headers tw))"
  by (auto simp: tar_WriteHeader_def headers_def split: option.splits)

lemma header_of_FileInfoHeader:
  "IsRegular info \<Longrightarrow>
     header_of info ((fst (FileInfoHeader info))\<lparr>HeaderName := relPath,
        ModTime := Round_Second (ModTime (fst (FileInfoHeader info)))\<rparr>)"
  by (simp add: header_of_def FileInfoHeader_def IsRegular_def Let_def)

lemma headers_Archive_walkFn:
  assumes "\<forall>h \<in> set (headers tw). \<exists>i \<in> S. header_of i h"
      and "IsRegular info \<longrightarrow> info \<in> S"
  shows "\<forall>h \<in> set (headers (snd (Archive_walkFn opts relPath info opened err tw))).
           \<exists>i \<in> S. header_of i h"
proof (cases "err = None \<and> \<not> (case Filter opts of None \<Rightarrow> False | Some f \<Rightarrow> f relPath (IsDir info))
    \<and> IsRegular info \<and> snd (FileInfoHeader info) = None")
  case False
  then show ?thesis
    using assms(1)
    by (auto simp: Archive_walkFn_def split: option.splits prod.splits)
next
  case True
  let ?hdr = "(fst (FileInfoHeader info))\<lparr>HeaderName := relPath\<rparr>"
  let ?tw1 = "snd (tar_WriteHeader tw ?hdr)"
  have new: "header_of info (?hdr\<lparr>ModTime := Round_Second (ModTime ?hdr)\<rparr>)"
    using header_of_FileInfoHeader[of info relPath] True by simp
  have tw1: "\<forall>h \<in> set (headers ?tw1). \<exists>i \<in> S. header_of i h"
    using headers_tar_WriteHeader[of tw ?hdr] assms new True by blast
  have "headers (snd (Archive_walkFn opts relPath info opened err tw)) = headers ?tw1"
    using True headers_tar_Copy[of ?tw1 "fst opened"]
    by (cases "FileInfoHeader info"; cases opened)
       (auto simp: Archive_walkFn_def Let_def split: option.splits prod.splits)
  with tw1 show ?thesis
    by simp
qed

lemma headers_walk:
  "(\<forall>h \<in> set (headers tw). \<exists>i \<in> S. header_of i h) \<Longrightarrow> set (regular_infos t) \<subseteq> S \<Longrightarrow>
     \<forall>h \<in> set (headers (snd (walk opts relPath t tw))). \<exists>i \<in> S. header_of i h"
  and headers_walk_names:
  "(\<forall>h \<in> set (headers tw). \<exists>i \<in> S. header_of i h) \<Longrightarrow>
     (\<Union>t \<in> set ts. set (regular_infos t)) \<subseteq> S \<Longrightarrow>
     \<forall>h \<in> set (headers (snd (walk_names opts relPath ts tw))). \<exists>i \<in> S. header_of i h"
proof (induction opts relPath t tw and opts relPath ts tw rule: walk_walk_names.induct)
  case (1 opts relPath info opened tw)
  have "IsRegular info \<longrightarrow> info \<in> S"
    using "1.prems"(2) by auto
  with "1.prems"(1) show ?case
    using headers_Archive_walkFn[of tw S info opts relPath opened None] by simp
next
  case (2 opts relPath name err tw)
  then show ?case by simp
next
  case (3 opts relPath info err names tw)
  obtain res tw' where f: "Archive_walkFn opts relPath info (Reader [] None, None) err tw = (res, tw')"
    by (cases "Archive_walkFn opts relPath info (Reader [] None, None) err tw")
  have reg: "IsRegular info \<longrightarrow> info \<in> S"
    using "3.prems"(2) by auto
  have tw': "\<forall>h \<in> set (headers tw'). \<exists>i \<in> S. header_of i h"
    using headers_Archive_walkFn[OF "3.prems"(1) reg, of opts relPath "(Reader [] None, None)" err]
      f by simp
  show ?case
  proof (cases "res = Continue \<and> err = None")
    case True
    then show ?thesis
      using "3.IH" f tw' "3.prems"(2) by auto
  next
    case False
    then show ?thesis
      using f tw' by (cases res) auto
  qed
next
  case (4 opts relPath tw)
  then show ?case by simp
next
  case (5 opts relPath entry names tw)
  obtain res tw' where w: "walk opts (Rel_Join relPath (base_name entry)) entry tw = (res, tw')"
    by (cases "walk opts (Rel_Join relPath (base_name entry)) entry tw")
  have tw': "\<forall>h \<in> set (headers tw'). \<exists>i \<in> S. header_of i h"
    using "5.IH"(1)[OF "5.prems"(1)] "5.prems"(2) w by simp
  have rest: "(\<Union>t \<in> set names. set (regular_infos t)) \<subseteq> S"
    using "5.prems"(2) by simp
  show ?case
  proof (cases res)
    case Continue
    then show ?thesis
      using "5.IH"(2)[OF w[symmetric] _ tw' rest] w by simp
  next
    case SkipDir
    then show ?thesis
      using "5.IH"(3)[OF w[symmetric] _ _ tw' rest] w tw' by simp
  next
    case (Stop e)
    then show ?thesis
      using w tw' by simp
  qed
qed


text \<open>The headers that \<^verbatim>\<open>S3Storage.Archive\<close> writes for a source directory.\<close>

definition Archive_headers :: "ArchiveOptions \<Rightarrow> fs_tree \<Rightarrow> Header list" where
  "Archive_headers opts root = headers (snd (filepath_Walk opts root tar_NewWriter))"

lemma headers_filepath_Walk:
  "headers (snd (filepath_Walk opts root tw)) = headers (snd (walk opts ''.'' root tw))"
  by (simp add: filepath_Walk_def split: prod.splits walk_result.splits)

lemma Archive_stores_entries:
  assumes "S3Storage_Archive encode Canonical now s c artifact opts root = ((None, a'), c')"
  shows "map_option data (map_of (objects c') (bucket s, artifactKey s artifact)) =
     Some (encode (entries (snd (filepath_Walk opts root tar_NewWriter))))"
proof -
  obtain err tw where w: "filepath_Walk opts root tar_NewWriter = (err, tw)"
    by (cases "filepath_Walk opts root tar_NewWriter")
  from assms w have "err = None" "tar_Close tw = None"
    by (auto simp: S3Storage_Archive_def split: option.splits)
  with assms w have
    "S3Storage_Store Canonical now s c artifact (Reader (encode (entries tw)) None) = ((None, a'), c')"
    by (simp add: S3Storage_Archive_def)
  then show ?thesis
    using w by (simp add: Store_success(3))
qed

text \<open>
  C8, amended. Every header that \<^verbatim>\<open>S3Storage.Archive\<close> writes belongs to a regular
  file of the source directory and carries that file's mode bits and size, its
  modification time rounded to the second by the tar writer, no device numbers,
  and the owner and group of the file with their names as the host has them:
  owner and group are not normalised. When \<^verbatim>\<open>Archive\<close> returns no error, the
  object stored under the artifact's key is the encoding of exactly the entries
  under these headers.
\<close>

theorem Archive_headers_keep_owner:
  "(\<forall>h \<in> set (Archive_headers opts root). \<exists>info \<in> set (regular_infos root). header_of info h) \<and>
   (S3Storage_Archive encode Canonical now s c artifact opts root = ((None, a'), c') \<longrightarrow>
      map_option data (map_of (objects c') (bucket s, artifactKey s artifact)) =
        Some (encode (entries (snd (filepath_Walk opts root tar_NewWriter)))) \<and>
      map fst (entries (snd (filepath_Walk opts root tar_NewWriter))) = Archive_headers opts root)"
proof -
  have "\<forall>h \<in> set (headers tar_NewWriter). \<exists>i \<in> set (regular_infos root). header_of i h"
    by (simp add: headers_def tar_NewWriter_def)
  then have "\<forall>h \<in> set (Archive_headers opts root).
      \<exists>info \<in> set (regular_infos root). header_of info h"
    unfolding Archive_headers_def headers_filepath_Walk
    by (rule headers_walk) simp
  then show ?thesis
    using Archive_stores_entries[of encode Canonical now s c artifact opts root a' c']
    by (simp add: Archive_headers_def headers_def)
qed

text \<open>
  A source directory with one regular file, last modified 0.6 s after a full
  second, as a host sees it on which the files belong to the given user.
\<close>

definition example_info :: "int \<Rightarrow> string \<Rightarrow> FileInfo" where
  "example_info uid uname =
     \<lparr>BaseName = ''main.go'', FileSize = 5, FileType = Regular, Perm = 420,
      FileModTime = 1700000000 * Second + 600000000,
      Owner_Uid = uid, Owner_Gid = uid, Owner_Uname = uname, Owner_Gname = uname\<rparr>"

definition example_source :: "int \<Rightarrow> string \<Rightarrow> fs_tree" where
  "example_source uid uname =
     Dir \<lparr>BaseName = ''src'', FileSize = 4096, FileType = Directory, Perm = 493,
          FileModTime = 1700000000 * Second,
          Owner_Uid = uid, Owner_Gid = uid, Owner_Uname = uname, Owner_Gname = uname\<rparr>
       None
       [File (example_info uid uname) (Reader ''hello'' None, None)]"

definition example_options :: ArchiveOptions where
  "example_options = \<lparr>SourcePath = ''/tmp/src'', Filter = None\<rparr>"

text \<open>
  C8 as stated fails: the header written for a file that belongs to user 1000
  (\<^verbatim>\<open>flux\<close>) carries that owner and group, and the same directory on a host where
  the files belong to \<^verbatim>\<open>root\<close> gives a different header.
\<close>

theorem Archive_headers_counterexample:
  "map HeaderName (Archive_headers example_options (example_source 1000 ''flux'')) = [''main.go''] \<and>
   map Uid (Archive_headers example_options (example_source 1000 ''flux'')) = [1000] \<and>
   map Gid (Archive_headers example_options (example_source 1000 ''flux'')) = [1000] \<and>
   map Uname (Archive_headers example_options (example_source 1000 ''flux'')) = [''flux''] \<and>
   map Gname (Archive_headers example_options (example_source 1000 ''flux'')) = [''flux''] \<and>
   Archive_headers example_options (example_source 1000 ''flux'') \<noteq>
     Archive_headers example_options (example_source 0 ''root'')"
  by code_simp

text \<open>C8, amended, at that source directory.\<close>

theorem Archive_headers_keep_owner_witness:
  "Archive_headers example_options (example_source 1000 ''flux'') \<noteq> [] \<and>
   header_of (example_info 1000 ''flux'')
     (hd (Archive_headers example_options (example_source 1000 ''flux''))) \<and>
   Mode (hd (Archive_headers example_options (example_source 1000 ''flux''))) = 420 \<and>
   ModTime (hd (Archive_headers example_options (example_source 1000 ''flux''))) =
     1700000001 * Second"
proof -
  let ?H = "Archive_headers example_options (example_source 1000 ''flux'')"
  have ne: "?H \<noteq> []"
    by code_simp
  then have "hd ?H \<in> set ?H"
    by simp
  with Archive_headers_keep_owner[of example_options "example_source 1000 ''flux''",
      THEN conjunct1]
  obtain info where "info \<in> set (regular_infos (example_source 1000 ''flux''))"
      and h: "header_of info (hd ?H)"
    by blast
  moreover have "regular_infos (example_source 1000 ''flux'') = [example_info 1000 ''flux'']"
    by code_simp
  ultimately have info: "info = example_info 1000 ''flux''"
    by simp
  have "Round_Second (FileModTime (example_info 1000 ''flux'')) = 1700000001 * Second"
    by code_simp
  moreover have "Perm (example_info 1000 ''flux'') = 420"
    by code_simp
  ultimately show ?thesis
    using ne h unfolding info by (simp add: header_of_def)
qed

end
